theory Spec2Isabelle
  imports Main
begin

section \<open>Python values, dictionaries and exceptions\<close>

text \<open>
  A Python dictionary with string keys is a map from keys to values. A value that may be
  Python's \<^verbatim>\<open>None\<close> is an \<open>option\<close>: in a dictionary \<open>d\<close>, \<open>d k = None\<close> says that
  the key is absent, \<open>d k = Some None\<close> that it is present and holds \<^verbatim>\<open>None\<close>, and
  \<open>d k = Some (Some v)\<close> that it holds the value \<open>v\<close>.
\<close>

type_synonym 'v pydict = "string \<rightharpoonup> 'v option"

text \<open>\<^verbatim>\<open>d.get(k)\<close>: the value under \<open>k\<close>, or \<^verbatim>\<open>None\<close> when the key is absent.\<close>

definition dict_get :: "'v pydict \<Rightarrow> string \<Rightarrow> 'v option" where
  "dict_get d k = (case d k of None \<Rightarrow> None | Some v \<Rightarrow> v)"

section \<open>\<^verbatim>\<open>flask_multiauth/util.py\<close>: \<^verbatim>\<open>convert_data\<close>\<close>

text \<open>
  \<^verbatim>\<open>
  mapped_keys = set(mapping.values())
  result = {key: value for key, value in iteritems(data) if key not in mapped_keys}
  result.update((target_key, data.get(source_key)) for target_key, source_key in iteritems(mapping))
  if keys is not None:
      keys = set(keys)
      result = {key: value for key, value in iteritems(result) if key in keys}
      result.update({key: None for key in keys - set(result)})
  return result
  \<close>
  The mapping sends a target key to the source key whose value it takes. \<open>keys\<close> is
  \<open>None\<close> for the default argument and \<open>Some ks\<close> for a list of keys.
\<close>

definition convert_data ::
  "'v pydict \<Rightarrow> (string \<rightharpoonup> string) \<Rightarrow> string list option \<Rightarrow> 'v pydict" where
  "convert_data data mapping keys =
     (let mapped_keys = ran mapping;
          result1 = (\<lambda>key. if key \<in> mapped_keys then None else data key);
          result2 = (\<lambda>target_key. case mapping target_key of
                        Some source_key \<Rightarrow> Some (dict_get data source_key)
                      | None \<Rightarrow> result1 target_key)
      in case keys of
           None \<Rightarrow> result2
         | Some ks \<Rightarrow>
             (let keys' = set ks;
                  result3 = (\<lambda>key. if key \<in> keys' then result2 key else None);
                  result4 = (\<lambda>key. if key \<in> keys' - dom result3 then Some None
                                   else result3 key)
              in result4))"


section \<open>Exceptions\<close>

text \<open>
  Every \<^verbatim>\<open>raise\<close> of the source is a value \<open>Inl e\<close> of the result. The constructors
  are the Python exception classes, with the message as argument. The two failures of
  \<^verbatim>\<open>validate_provider_map\<close> join a set of names into the message in the set's iteration
  order, which Python leaves open: \<open>ValueError_names prefix names\<close> is that
  \<^verbatim>\<open>ValueError\<close>, the message being the prefix followed by the names.
  \<open>ConversionNotModelled\<close> is no exception of Python: it is the answer of the model of
  the \<^verbatim>\<open>%\<close> operator on a template with a conversion that the model leaves out.
\<close>

datatype error =
    KeyError string
  | AttributeError string
  | TypeError string
  | ValueError string
  | ValueError_names string "string set"
  | RuntimeError string
  | AssertionError string
  | UserRetrievalFailed string
  | LDAPServerError string
  | LDAPError string
  | ConversionNotModelled

section \<open>\<^verbatim>\<open>flask_multiauth/util.py\<close>: \<^verbatim>\<open>get_canonical_provider_map\<close>\<close>

text \<open>
  A link of the provider map is a dictionary. The code reads three of its keys:
  \<^verbatim>\<open>'identity_provider'\<close> (in \<^verbatim>\<open>get_canonical_provider_map\<close> and
  \<^verbatim>\<open>validate_provider_map\<close>), \<^verbatim>\<open>'user_provider'\<close> and \<^verbatim>\<open>'mapping'\<close> (in
  \<^verbatim>\<open>MultiAuth.handle_auth_info\<close>). Each field of the record is one of these keys,
  \<open>None\<close> when the dictionary does not have it.
\<close>

record link =
  link_identity_provider :: "string option"
  link_user_provider :: "string option"
  link_mapping :: "(string \<rightharpoonup> string) option"

text \<open>
  An entry of a configured value is a string or a link dictionary; a configured value is
  a list (or tuple) of entries, or a single entry. A Python \<^verbatim>\<open>set\<close> of entries is the
  list of its elements in the set's iteration order.
\<close>

datatype raw_link = Name string | LinkObject link

datatype raw_value = Single raw_link | Sequence "raw_link list"

text \<open>
  \<^verbatim>\<open>{'identity_provider': p} if isinstance(p, string_types) else p\<close>
\<close>

definition expand_link :: "raw_link \<Rightarrow> link" where
  "expand_link p =
     (case p of
        Name s \<Rightarrow> \<lparr>link_identity_provider = Some s, link_user_provider = None,
                   link_mapping = None\<rparr>
      | LinkObject l \<Rightarrow> l)"

text \<open>
  \<^verbatim>\<open>
  if not isinstance(identity_providers, (list, tuple, set)):
      identity_providers = [identity_providers]
  identity_providers = tuple(... for p in identity_providers)
  \<close>
\<close>

definition as_sequence :: "raw_value \<Rightarrow> raw_link list" where
  "as_sequence identity_providers =
     (case identity_providers of Sequence ps \<Rightarrow> ps | Single p \<Rightarrow> [p])"

definition canonical_links :: "raw_value \<Rightarrow> link list" where
  "canonical_links identity_providers = map expand_link (as_sequence identity_providers)"

text \<open>
  The loop over \<^verbatim>\<open>iteritems(provider_map)\<close> stores one canonical value under each
  key of the configured map.
\<close>

definition get_canonical_provider_map ::
  "(string \<rightharpoonup> raw_value) \<Rightarrow> (string \<rightharpoonup> link list)" where
  "get_canonical_provider_map provider_map =
     (\<lambda>auth_provider_name.
        case provider_map auth_provider_name of
          None \<Rightarrow> None
        | Some identity_providers \<Rightarrow> Some (canonical_links identity_providers))"

text \<open>\<^verbatim>\<open>link.get('mapping', {})\<close>, as \<^verbatim>\<open>handle_auth_info\<close> reads the field mapping.\<close>

definition link_get_mapping :: "link \<Rightarrow> (string \<rightharpoonup> string)" where
  "link_get_mapping l = (case link_mapping l of None \<Rightarrow> Map.empty | Some m \<Rightarrow> m)"

section \<open>\<^verbatim>\<open>flask_multiauth/core.py\<close>: \<^verbatim>\<open>_MultiAuthState\<close>\<close>

text \<open>
  \<^verbatim>\<open>_MultiAuthState.__init__\<close> sets the attributes \<^verbatim>\<open>auth_providers\<close>,
  \<^verbatim>\<open>user_providers\<close> and \<^verbatim>\<open>provider_map\<close> (and \<^verbatim>\<open>multiauth\<close>, \<^verbatim>\<open>app\<close>, which
  nothing here reads). \<^verbatim>\<open>validate_provider_map\<close> reads the attribute
  \<^verbatim>\<open>identity_providers\<close> of the state it is given, which the constructor does not set:
  the field is \<open>None\<close> on an object without that attribute.
\<close>

record ('a, 'u) MultiAuthState =
  auth_providers :: "string \<rightharpoonup> 'a"
  user_providers :: "string \<rightharpoonup> 'u"
  provider_map :: "string \<rightharpoonup> link list"
  identity_providers :: "(string \<rightharpoonup> 'u) option"

definition MultiAuthState_init :: "('a, 'u) MultiAuthState" where
  "MultiAuthState_init =
     \<lparr>auth_providers = Map.empty, user_providers = Map.empty, provider_map = Map.empty,
      identity_providers = None\<rparr>"

section \<open>\<^verbatim>\<open>flask_multiauth/util.py\<close>: \<^verbatim>\<open>validate_provider_map\<close>\<close>

text \<open>
  \<^verbatim>\<open>
  invalid_keys = viewkeys(state.auth_providers) - viewkeys(state.provider_map)
  if invalid_keys:
      raise ValueError('Auth providers not linked to identity providers: ' + ', '.join(invalid_keys))
  targeted_providers = {p['identity_provider'] for providers in itervalues(state.provider_map)
                        for p in providers}
  invalid_keys = targeted_providers - viewkeys(state.identity_providers)
  if invalid_keys:
      raise ValueError('Broken identity provider links: ' + ', '.join(invalid_keys))
  \<close>
  The set comprehension raises \<^verbatim>\<open>KeyError\<close> at a link without the key
  \<^verbatim>\<open>'identity_provider'\<close>; it is evaluated before \<^verbatim>\<open>state.identity_providers\<close>.
\<close>

definition all_links :: "(string \<rightharpoonup> link list) \<Rightarrow> link set" where
  "all_links pm = \<Union> (set ` ran pm)"

definition validate_provider_map :: "('a, 'u) MultiAuthState \<Rightarrow> error + unit" where
  "validate_provider_map state =
     (let invalid_keys = dom (auth_providers state) - dom (provider_map state)
      in if invalid_keys \<noteq> {}
         then Inl (ValueError_names ''Auth providers not linked to identity providers: ''
                     invalid_keys)
         else
           (let links = all_links (provider_map state)
            in if None \<in> link_identity_provider ` links
               then Inl (KeyError ''identity_provider'')
               else
                 (let targeted_providers =
                        \<Union> ((\<lambda>p. set_option (link_identity_provider p)) ` links)
                  in case identity_providers state of
                       None \<Rightarrow> Inl (AttributeError ''identity_providers'')
                     | Some ips \<Rightarrow>
                         (let invalid_keys' = targeted_providers - dom ips
                          in if invalid_keys' \<noteq> {}
                             then Inl (ValueError_names ''Broken identity provider links: ''
                                         invalid_keys')
                             else Inr ()))))"

section \<open>\<^verbatim>\<open>flask_multiauth/core.py\<close>: \<^verbatim>\<open>MultiAuth.handle_auth_info\<close>\<close>

text \<open>
  The two configuration options that \<^verbatim>\<open>handle_auth_info\<close> reads from
  \<^verbatim>\<open>current_app.config\<close>.
\<close>

record config =
  MULTIAUTH_ALL_MATCHING_USERS :: bool
  MULTIAUTH_REQUIRE_USER :: bool

text \<open>
  Modelled from the spec: \<^verbatim>\<open>AuthInfo\<close> and its method \<^verbatim>\<open>map\<close> are defined in a
  module that is not among the sources. Section 3 of the specification gives an AuthInfo
  the name of the authentication provider that produced it and a flat mapping \<open>data\<close>;
  section 4.4 has the resolution map that data through the field mapping of the link,
  with the attribute mapper of section 4.3 (\<^verbatim>\<open>convert_data\<close>).
\<close>

record AuthInfo =
  auth_provider_name :: string
  auth_data :: "string pydict"

definition AuthInfo_map :: "AuthInfo \<Rightarrow> (string \<rightharpoonup> string) \<Rightarrow> AuthInfo" where
  "AuthInfo_map auth_info m =
     auth_info\<lparr>auth_data := convert_data (auth_data auth_info) m None\<rparr>"

text \<open>
  A user provider is a plugin; of its methods the resolution calls
  \<^verbatim>\<open>get_user_from_auth\<close>, which answers a user or \<^verbatim>\<open>None\<close>.
\<close>

record 'u UserProvider =
  get_user_from_auth :: "AuthInfo \<Rightarrow> 'u option"

text \<open>
  The argument that \<^verbatim>\<open>login_finished\<close> receives: one user or \<^verbatim>\<open>None\<close>, or the list
  of all users found.
\<close>

datatype 'u login_argument = OneUser "'u option" | AllUsers "'u list"

text \<open>
  The loop of \<^verbatim>\<open>handle_auth_info\<close>, with the list \<^verbatim>\<open>users\<close> as accumulator:
  \<^verbatim>\<open>
  for link in links:
      provider = self.user_providers[link['user_provider']]
      mapping = link.get('mapping', {})
      user_info = provider.get_user_from_auth(auth_info.map(mapping))
      if user_info is None:
          continue
      users.append(user_info)
      if not current_app.config['MULTIAUTH_ALL_MATCHING_USERS']:
          break
  \<close>
\<close>

fun find_users ::
  "(string \<rightharpoonup> 'u UserProvider) \<Rightarrow> config \<Rightarrow> AuthInfo \<Rightarrow> link list \<Rightarrow> 'u list
     \<Rightarrow> error + 'u list" where
  "find_users ups cfg auth_info [] users = Inr users"
| "find_users ups cfg auth_info (l # links) users =
     (case link_user_provider l of
        None \<Rightarrow> Inl (KeyError ''user_provider'')
      | Some pname \<Rightarrow>
          (case ups pname of
             None \<Rightarrow> Inl (KeyError pname)
           | Some provider \<Rightarrow>
               (let m = link_get_mapping l;
                    user_info = get_user_from_auth provider (AuthInfo_map auth_info m)
                in case user_info of
                     None \<Rightarrow> find_users ups cfg auth_info links users
                   | Some u \<Rightarrow>
                       if \<not> MULTIAUTH_ALL_MATCHING_USERS cfg then Inr (users @ [u])
                       else find_users ups cfg auth_info links (users @ [u]))))"

text \<open>
  \<^verbatim>\<open>login_finished\<close> asserts that a callback is registered and calls it. The callback
  belongs to the application: it is a function of its argument on the application's
  state \<open>'s\<close>, and \<open>None\<close> while no callback is registered.
\<close>

definition login_finished ::
  "('u login_argument \<Rightarrow> 's \<Rightarrow> 's) option \<Rightarrow> 'u login_argument \<Rightarrow> 's \<Rightarrow> error + 's" where
  "login_finished user_callback user app =
     (case user_callback of
        None \<Rightarrow> Inl (AssertionError ''No user callback has been registered.'')
      | Some callback \<Rightarrow> Inr (callback user app))"

definition handle_auth_info ::
  "('u login_argument \<Rightarrow> 's \<Rightarrow> 's) option \<Rightarrow> ('a, 'u UserProvider) MultiAuthState \<Rightarrow> config
     \<Rightarrow> AuthInfo \<Rightarrow> 's \<Rightarrow> error + 's" where
  "handle_auth_info user_callback state cfg auth_info app =
     (case provider_map state (auth_provider_name auth_info) of
        None \<Rightarrow> Inl (KeyError (auth_provider_name auth_info))
      | Some links \<Rightarrow>
          (case find_users (user_providers state) cfg auth_info links [] of
             Inl e \<Rightarrow> Inl e
           | Inr users \<Rightarrow>
               if users = [] \<and> MULTIAUTH_REQUIRE_USER cfg
               then Inl (UserRetrievalFailed ''No user found'')
               else if MULTIAUTH_ALL_MATCHING_USERS cfg
               then login_finished user_callback (AllUsers users) app
               else login_finished user_callback
                      (OneUser (case users of [] \<Rightarrow> None | u # _ \<Rightarrow> Some u)) app))"

section \<open>\<^verbatim>\<open>flask_multiauth/util.py\<close>: \<^verbatim>\<open>resolve_provider_type\<close>\<close>

text \<open>
  The two base classes that \<^verbatim>\<open>init_app\<close> passes to \<^verbatim>\<open>_create_providers\<close>, and a
  provider class: its name, its class attributes \<^verbatim>\<open>type\<close> and \<^verbatim>\<open>multi_instance\<close>,
  and the base classes it inherits from (\<^verbatim>\<open>issubclass\<close>).
\<close>

datatype provider_base = AuthProviderBase | UserProviderBase

record provider_class =
  cls_name :: string
  cls_type :: string
  multi_instance :: bool
  cls_bases :: "provider_base list"

definition issubclass :: "provider_class \<Rightarrow> provider_base \<Rightarrow> bool" where
  "issubclass cls base = (base \<in> set (cls_bases cls))"

text \<open>
  A value of a provider's settings: a class (\<^verbatim>\<open>isclass\<close>) or a string. An entry point
  found by \<^verbatim>\<open>pkg_resources.iter_entry_points\<close> has the name of its module and the
  class that \<^verbatim>\<open>load()\<close> returns. The installed entry points are a parameter \<open>eps\<close>, by
  base class and type name.
\<close>

datatype setting = ClassRef provider_class | Str string

record entry_point =
  ep_module_name :: string
  ep_load :: provider_class

fun join :: "string \<Rightarrow> string list \<Rightarrow> string" where
  "join sep [] = []"
| "join sep [x] = x"
| "join sep (x # y # ys) = x @ sep @ join sep (y # ys)"

definition resolve_provider_type ::
  "(provider_base \<Rightarrow> string \<Rightarrow> entry_point list) \<Rightarrow> provider_base \<Rightarrow> setting
     \<Rightarrow> (string \<rightharpoonup> provider_class) option \<Rightarrow> error + provider_class" where
  "resolve_provider_type eps base ptype registry =
     (case ptype of
        ClassRef c \<Rightarrow>
          if \<not> issubclass c base
          then Inl (TypeError (''Received a class which is not a subclass of the base: ''
                                @ cls_name c))
          else Inr c
      | Str n \<Rightarrow>
          (case (case (case registry of None \<Rightarrow> None | Some r \<Rightarrow> r n) of
                   Some cls \<Rightarrow> Inr cls
                 | None \<Rightarrow>
                     (case eps base n of
                        [] \<Rightarrow> Inl (ValueError (''Unknown type: '' @ n))
                      | [entry_point] \<Rightarrow> Inr (ep_load entry_point)
                      | _ \<Rightarrow> Inl (RuntimeError (''Type '' @ n @ '' is not unique. Defined in ''
                                     @ join '', '' (map ep_module_name (eps base n))))))
           of
             Inl e \<Rightarrow> Inl e
           | Inr cls \<Rightarrow>
               if \<not> issubclass cls base
               then Inl (TypeError (''Found a class which is not a subclass of the base: ''
                                     @ cls_name cls))
               else Inr cls))"

section \<open>\<^verbatim>\<open>flask_multiauth/core.py\<close>: \<^verbatim>\<open>MultiAuth._create_providers\<close>\<close>

text \<open>
  A provider instance \<^verbatim>\<open>cls(self, name, settings)\<close>: its class, its name and its
  settings.
\<close>

record provider_instance =
  inst_class :: provider_class
  inst_name :: string
  inst_settings :: "string \<rightharpoonup> setting"

text \<open>
  The loop of \<^verbatim>\<open>_create_providers\<close> over the items of the configured dictionary, in the
  dictionary's iteration order, with \<^verbatim>\<open>providers\<close> and \<^verbatim>\<open>provider_types\<close> as
  accumulators:
  \<^verbatim>\<open>
  for name, settings in iteritems(current_app.config['MULTIAUTH_{}_PROVIDERS'.format(key)]):
      settings = settings.copy()
      cls = resolve_provider_type(base, settings.pop('type'))
      if not cls.multi_instance and cls.type in provider_types:
          raise RuntimeError('Provider does not support multiple instances: ' + cls.type)
      providers[name] = cls(self, name, settings)
      provider_types.add(cls.type)
  return providers
  \<close>
\<close>

fun create_providers_loop ::
  "(provider_base \<Rightarrow> string \<Rightarrow> entry_point list) \<Rightarrow> provider_base
     \<Rightarrow> (string \<times> (string \<rightharpoonup> setting)) list
     \<Rightarrow> (string \<rightharpoonup> provider_instance) \<Rightarrow> string set
     \<Rightarrow> error + (string \<rightharpoonup> provider_instance)" where
  "create_providers_loop eps base [] providers provider_types = Inr providers"
| "create_providers_loop eps base ((name, settings) # rest) providers provider_types =
     (case settings ''type'' of
        None \<Rightarrow> Inl (KeyError ''type'')
      | Some ptype \<Rightarrow>
          (let settings' = settings(''type'' := None)
           in case resolve_provider_type eps base ptype None of
                Inl e \<Rightarrow> Inl e
              | Inr cls \<Rightarrow>
                  if \<not> multi_instance cls \<and> cls_type cls \<in> provider_types
                  then Inl (RuntimeError (''Provider does not support multiple instances: ''
                                           @ cls_type cls))
                  else create_providers_loop eps base rest
                         (providers(name \<mapsto>
                            \<lparr>inst_class = cls, inst_name = name, inst_settings = settings'\<rparr>))
                         (insert (cls_type cls) provider_types)))"

definition create_providers ::
  "(provider_base \<Rightarrow> string \<Rightarrow> entry_point list)
     \<Rightarrow> (string \<times> (string \<rightharpoonup> setting)) list \<Rightarrow> provider_base
     \<Rightarrow> error + (string \<rightharpoonup> provider_instance)" where
  "create_providers eps configured base =
     create_providers_loop eps base configured Map.empty {}"

section \<open>\<^verbatim>\<open>flask_multiauth/providers/ldap/util.py\<close>\<close>

subsection \<open>\<^verbatim>\<open>get_page_cookie\<close>\<close>

text \<open>
  A server control of python-ldap, with its control type (an object identifier) and its
  cookie. \<^verbatim>\<open>SimplePagedResultsControl.controlType\<close> is the object identifier of
  RFC 2696.
\<close>

record server_control =
  controlType :: string
  cookie :: string

definition SimplePagedResultsControl_controlType :: string where
  "SimplePagedResultsControl_controlType = ''1.2.840.113556.1.4.319''"

definition get_page_cookie :: "server_control list \<Rightarrow> error + string" where
  "get_page_cookie server_ctrls =
     (let page_ctrls =
            filter (\<lambda>ctrl. controlType ctrl = SimplePagedResultsControl_controlType)
              server_ctrls
      in case page_ctrls of
           [] \<Rightarrow> Inl (LDAPServerError ''The LDAP server ignores the RFC 2696 specification'')
         | ctrl # _ \<Rightarrow> Inr (cookie ctrl))"

subsection \<open>\<^verbatim>\<open>find_one\<close>\<close>

text \<open>
  The request that \<^verbatim>\<open>find_one\<close> passes to \<^verbatim>\<open>search_ext_s\<close> of the connection, and
  the LDAP context \<^verbatim>\<open>current_ldap\<close>: the search of its connection, which answers a
  list of pairs of a distinguished name and attributes or raises an LDAP error, and its
  settings, of which \<^verbatim>\<open>find_one\<close> reads \<^verbatim>\<open>'timeout'\<close>. The distinguished name of a
  result is a string or \<^verbatim>\<open>None\<close>.
\<close>

datatype scope = SCOPE_BASE | SCOPE_ONELEVEL | SCOPE_SUBTREE

record search_request =
  req_base :: string
  req_scope :: scope
  req_attrlist :: "string list option"
  req_filterstr :: string
  req_timeout :: int
  req_sizelimit :: nat

record 'd LDAPContext =
  search_ext_s :: "search_request \<Rightarrow> error + (string option \<times> 'd) list"
  settings :: "string \<rightharpoonup> int"

text \<open>The truth value of a string or \<^verbatim>\<open>None\<close>: false for \<^verbatim>\<open>None\<close> and for \<^verbatim>\<open>''\<close>.\<close>

definition truthy :: "string option \<Rightarrow> bool" where
  "truthy v = (case v of None \<Rightarrow> False | Some s \<Rightarrow> s \<noteq> [])"

text \<open>
  \<^verbatim>\<open>
  entry = current_ldap.connection.search_ext_s(base_dn, ldap.SCOPE_SUBTREE,
              attrlist=attributes, filterstr=search_filter,
              timeout=current_ldap.settings['timeout'], sizelimit=1)
  return next(((dn, data) for dn, data in entry if dn), (None, None))
  \<close>
\<close>

definition find_one ::
  "'d LDAPContext \<Rightarrow> string \<Rightarrow> string \<Rightarrow> string list option
     \<Rightarrow> error + (string option \<times> 'd option)" where
  "find_one current_ldap base_dn search_filter attributes =
     (case settings current_ldap ''timeout'' of
        None \<Rightarrow> Inl (KeyError ''timeout'')
      | Some t \<Rightarrow>
          (case search_ext_s current_ldap
                  \<lparr>req_base = base_dn, req_scope = SCOPE_SUBTREE, req_attrlist = attributes,
                   req_filterstr = search_filter, req_timeout = t, req_sizelimit = 1\<rparr> of
             Inl e \<Rightarrow> Inl e
           | Inr entry \<Rightarrow>
               (case filter (\<lambda>(dn, d). truthy dn) entry of
                  [] \<Rightarrow> Inr (None, None)
                | (dn, d) # _ \<Rightarrow> Inr (dn, Some d))))"

subsection \<open>\<^verbatim>\<open>build_search_filter\<close>\<close>

text \<open>
  \<^verbatim>\<open>ldap.filter.escape_filter_chars\<close> of python-ldap (its default escape mode) replaces
  the backslash, the asterisk, the parentheses and the NUL character, in this order, by
  a backslash and two hexadecimal digits.
\<close>

definition replace_char :: "char \<Rightarrow> string \<Rightarrow> string \<Rightarrow> string" where
  "replace_char c r s = concat (map (\<lambda>x. if x = c then r else [x]) s)"

definition escape_filter_chars :: "string \<Rightarrow> string" where
  "escape_filter_chars assertion_value =
     (let s1 = replace_char (CHR 0x5C) [CHR 0x5C, CHR ''5'', CHR ''c''] assertion_value;
          s2 = replace_char (CHR ''*'') [CHR 0x5C, CHR ''2'', CHR ''a''] s1;
          s3 = replace_char (CHR ''('') [CHR 0x5C, CHR ''2'', CHR ''8''] s2;
          s4 = replace_char (CHR '')'') [CHR 0x5C, CHR ''2'', CHR ''9''] s3;
          s5 = replace_char (CHR 0x00) [CHR 0x5C, CHR ''0'', CHR ''0''] s4
      in s5)"

text \<open>
  Python's \<^verbatim>\<open>template % args\<close> for a tuple of strings \<open>args\<close>, read from left to
  right. A percent sign at the end of the template raises \<^verbatim>\<open>ValueError\<close>
  (incomplete format), and \<^verbatim>\<open>%%\<close> is a percent sign that takes no argument. At
  any other conversion character Python first takes the next argument, and raises
  \<^verbatim>\<open>TypeError\<close> when none is left; only then it reads the character: \<^verbatim>\<open>%s\<close>
  puts the argument into the result, and a character that is no conversion raises
  \<^verbatim>\<open>ValueError\<close> (unsupported format character). Arguments left at the end of the
  template raise \<^verbatim>\<open>TypeError\<close>. What comes between the percent sign and the
  conversion character (a mapping key, flags, a width, a precision, a length modifier)
  and the conversions other than \<^verbatim>\<open>%s\<close> are not modelled: a template that reaches
  one of them answers \<open>ConversionNotModelled\<close>.
\<close>

definition conversion_prefix_chars :: "char set" where
  "conversion_prefix_chars = set ''(-+ #0123456789*.hlL''"

definition other_conversion_chars :: "char set" where
  "other_conversion_chars = set ''diouxXeEfFgGcr''"

fun py_percent :: "string \<Rightarrow> string list \<Rightarrow> error + string" where
  "py_percent [] [] = Inr []"
| "py_percent [] (a # as) =
     Inl (TypeError ''not all arguments converted during string formatting'')"
| "py_percent [c] args =
     (if c = CHR ''%'' then Inl (ValueError ''incomplete format'')
      else map_sum id (\<lambda>r. c # r) (py_percent [] args))"
| "py_percent (c # d # cs) args =
     (if c \<noteq> CHR ''%'' then map_sum id (\<lambda>r. c # r) (py_percent (d # cs) args)
      else if d \<in> conversion_prefix_chars then Inl ConversionNotModelled
      else if d = CHR ''%'' then map_sum id (\<lambda>r. CHR ''%'' # r) (py_percent cs args)
      else
        (case args of
           [] \<Rightarrow> Inl (TypeError ''not enough arguments for format string'')
         | a # as \<Rightarrow>
             if d = CHR ''s'' then map_sum id (\<lambda>r. a @ r) (py_percent cs as)
             else if d \<in> other_conversion_chars then Inl ConversionNotModelled
             else Inl (ValueError ''unsupported format character'')))"

text \<open>
  \<^verbatim>\<open>ldap.filter.filter_format\<close> of python-ldap:
  \<^verbatim>\<open>filter_template % tuple(map(escape_filter_chars, assertion_values))\<close>.
\<close>

definition filter_format :: "string \<Rightarrow> string list \<Rightarrow> error + string" where
  "filter_format filter_template assertion_values =
     py_percent filter_template (map escape_filter_chars assertion_values)"

text \<open>
  The items of a dictionary in its iteration order. Python does not fix the order of a
  dictionary: \<open>order\<close> is the list of keys in the order in which the dictionary yields
  them.
\<close>

definition iteritems :: "string list \<Rightarrow> (string \<rightharpoonup> 'v) \<Rightarrow> (string \<times> 'v) list" where
  "iteritems order d = List.map_filter (\<lambda>k. map_option (Pair k) (d k)) order"

text \<open>
  Modelled from the spec: \<^verbatim>\<open>build_search_filter\<close> calls \<^verbatim>\<open>convert_app_data\<close>, which
  it imports from \<^verbatim>\<open>flask_multiauth.util\<close>; the module among the sources defines
  \<^verbatim>\<open>convert_data\<close> only. Section 4.5 of the specification has the filter builder map
  the criteria through the field mapping, which is the attribute mapper of section 4.3
  without a list of allowed keys.
\<close>

definition convert_app_data :: "'v pydict \<Rightarrow> (string \<rightharpoonup> string) \<Rightarrow> 'v pydict" where
  "convert_app_data app_data m = convert_data app_data m None"

text \<open>
  \<^verbatim>\<open>
  assertions = convert_app_data(criteria, mapping or {})
  assertions = [(k, v) for k, v in iteritems(assertions) if k and v]
  if not assertions:
      return None
  assert_template = '(%s=%s)' if exact else '(%s=*%s*)'
  filter_template = '(&{}{})'.format(assert_template * len(assertions), type_filter)
  return filter_format(filter_template, (item for assertion in assertions for item in assertion))
  \<close>
  The values of the criteria are strings or \<^verbatim>\<open>None\<close>. \<open>order\<close> is the iteration order
  of the dictionary \<^verbatim>\<open>assertions\<close>. The result \<open>Inr None\<close> is the return value
  \<^verbatim>\<open>None\<close>.
\<close>

definition surviving :: "(string \<times> string option) list \<Rightarrow> (string \<times> string) list" where
  "surviving items =
     List.map_filter
       (\<lambda>(k, v). case v of None \<Rightarrow> None
                  | Some s \<Rightarrow> if k \<noteq> [] \<and> s \<noteq> [] then Some (k, s) else None)
       items"

definition build_search_filter ::
  "string list \<Rightarrow> string pydict \<Rightarrow> string \<Rightarrow> (string \<rightharpoonup> string) option \<Rightarrow> bool
     \<Rightarrow> error + string option" where
  "build_search_filter order criteria type_filter mapping exact =
     (let assertions =
            convert_app_data criteria (case mapping of None \<Rightarrow> Map.empty | Some m \<Rightarrow> m);
          assertions' = surviving (iteritems order assertions)
      in if assertions' = [] then Inr None
         else
           (let assert_template = (if exact then ''(%s=%s)'' else ''(%s=*%s*)'');
                filter_template =
                  ''(&'' @ concat (replicate (length assertions') assert_template)
                    @ type_filter @ '')''
            in map_sum id Some
                 (filter_format filter_template
                    (concat (map (\<lambda>(k, s). [k, s]) assertions')))))"

section \<open>Properties of \<^verbatim>\<open>convert_data\<close>\<close>

lemma convert_data_no_keys:
  "convert_data data mapping None k =
     (case mapping k of
        Some s \<Rightarrow> Some (dict_get data s)
      | None \<Rightarrow> if k \<in> ran mapping then None else data k)"
  by (simp add: convert_data_def Let_def)

lemma convert_data_keys:
  "convert_data data mapping (Some ks) k =
     (if k \<in> set ks
      then (case convert_data data mapping None k of None \<Rightarrow> Some None | Some v \<Rightarrow> Some v)
      else None)"
  by (auto simp: convert_data_def Let_def dom_def split: option.splits)

lemma dom_convert_data_keys: "dom (convert_data data mapping (Some ks)) = set ks"
  by (auto simp: convert_data_keys dom_def split: option.splits if_splits)

text \<open>
  C4. With a list of allowed keys, the result of \<^verbatim>\<open>convert_data\<close> has exactly the
  allowed keys. An allowed key that is a target of the mapping holds the value
  \<^verbatim>\<open>data.get(source)\<close> of its source key; an allowed key that is not a target and is a
  key of the data that no mapping entry uses as a source keeps its value; every other
  allowed key is present and holds \<^verbatim>\<open>None\<close>. On the data
  \<^verbatim>\<open>{uid: "jdoe", mail: "j@x.com"}\<close>, the mapping \<^verbatim>\<open>{id: "uid"}\<close> and the keys
  \<^verbatim>\<open>id, mail, extra\<close> the result is \<^verbatim>\<open>{id: "jdoe", mail: "j@x.com", extra: None}\<close>.
\<close>

theorem convert_data_allowed_keys:
  "dom (convert_data data mapping (Some ks)) = set ks
   \<and> (\<forall>t s. t \<in> set ks \<and> mapping t = Some s
          \<longrightarrow> convert_data data mapping (Some ks) t = Some (dict_get data s))
   \<and> (\<forall>k. k \<in> set ks \<and> mapping k = None \<and> k \<in> dom data \<and> k \<notin> ran mapping
          \<longrightarrow> convert_data data mapping (Some ks) k = data k)
   \<and> (\<forall>k. k \<in> set ks \<and> mapping k = None \<and> (k \<notin> dom data \<or> k \<in> ran mapping)
          \<longrightarrow> convert_data data mapping (Some ks) k = Some None)
   \<and> convert_data [''uid'' \<mapsto> Some ''jdoe'', ''mail'' \<mapsto> Some ''j@x.com'']
         [''id'' \<mapsto> ''uid''] (Some [''id'', ''mail'', ''extra''])
       = [''id'' \<mapsto> Some ''jdoe'', ''mail'' \<mapsto> Some ''j@x.com'', ''extra'' \<mapsto> None]"
proof (intro conjI allI impI)
  show "dom (convert_data data mapping (Some ks)) = set ks"
    by (rule dom_convert_data_keys)
next
  fix t s
  assume "t \<in> set ks \<and> mapping t = Some s"
  then show "convert_data data mapping (Some ks) t = Some (dict_get data s)"
    by (simp add: convert_data_keys convert_data_no_keys)
next
  fix k
  assume "k \<in> set ks \<and> mapping k = None \<and> k \<in> dom data \<and> k \<notin> ran mapping"
  then show "convert_data data mapping (Some ks) k = data k"
    by (auto simp: convert_data_keys convert_data_no_keys)
next
  fix k
  assume "k \<in> set ks \<and> mapping k = None \<and> (k \<notin> dom data \<or> k \<in> ran mapping)"
  then show "convert_data data mapping (Some ks) k = Some None"
    by (auto simp: convert_data_keys convert_data_no_keys dom_def split: option.splits)
next
  show "convert_data [''uid'' \<mapsto> Some ''jdoe'', ''mail'' \<mapsto> Some ''j@x.com'']
          [''id'' \<mapsto> ''uid''] (Some [''id'', ''mail'', ''extra''])
        = [''id'' \<mapsto> Some ''jdoe'', ''mail'' \<mapsto> Some ''j@x.com'', ''extra'' \<mapsto> None]"
    by (rule ext) (simp add: convert_data_keys convert_data_no_keys dict_get_def)
qed

theorem convert_data_allowed_keys_witness:
  "dom (convert_data [''uid'' \<mapsto> Some ''jdoe'', ''mail'' \<mapsto> Some ''j@x.com'']
          [''id'' \<mapsto> ''uid''] (Some [''id'', ''mail'', ''extra'']))
     = {''id'', ''mail'', ''extra''}
   \<and> ''id'' \<in> set [''id'', ''mail'', ''extra'']
   \<and> [''id'' \<mapsto> ''uid''] ''id'' = Some ''uid''
   \<and> convert_data [''uid'' \<mapsto> Some ''jdoe'', ''mail'' \<mapsto> Some ''j@x.com'']
         [''id'' \<mapsto> ''uid''] (Some [''id'', ''mail'', ''extra'']) ''id''
       = Some (Some ''jdoe'')
   \<and> ''mail'' \<in> dom [''uid'' \<mapsto> Some ''jdoe'', ''mail'' \<mapsto> Some ''j@x.com'']
   \<and> ''mail'' \<notin> ran [''id'' \<mapsto> ''uid'']
   \<and> convert_data [''uid'' \<mapsto> Some ''jdoe'', ''mail'' \<mapsto> Some ''j@x.com'']
         [''id'' \<mapsto> ''uid''] (Some [''id'', ''mail'', ''extra'']) ''mail''
       = Some (Some ''j@x.com'')
   \<and> ''extra'' \<notin> dom [''uid'' \<mapsto> Some ''jdoe'', ''mail'' \<mapsto> Some ''j@x.com'']
   \<and> convert_data [''uid'' \<mapsto> Some ''jdoe'', ''mail'' \<mapsto> Some ''j@x.com'']
         [''id'' \<mapsto> ''uid''] (Some [''id'', ''mail'', ''extra'']) ''extra''
       = Some None"
proof -
  define d :: "string pydict" where
    "d = [''uid'' \<mapsto> Some ''jdoe'', ''mail'' \<mapsto> Some ''j@x.com'']"
  define m :: "string \<rightharpoonup> string" where "m = [''id'' \<mapsto> ''uid'']"
  define ks where "ks = [''id'', ''mail'', ''extra'']"
  note t = convert_data_allowed_keys [of d m ks]
  have k1: "''id'' \<in> set ks \<and> m ''id'' = Some ''uid''"
    by (simp add: ks_def m_def)
  have k2: "''mail'' \<in> set ks \<and> m ''mail'' = None \<and> ''mail'' \<in> dom d \<and> ''mail'' \<notin> ran m"
    by (simp add: ks_def m_def d_def)
  have k3: "''extra'' \<in> set ks \<and> m ''extra'' = None
              \<and> (''extra'' \<notin> dom d \<or> ''extra'' \<in> ran m)"
    by (simp add: ks_def m_def d_def)
  from t have "dom (convert_data d m (Some ks)) = set ks"
    by (rule conjunct1)
  then have r0: "dom (convert_data d m (Some ks)) = {''id'', ''mail'', ''extra''}"
    by (simp add: ks_def)
  from t k1 have "convert_data d m (Some ks) ''id'' = Some (dict_get d ''uid'')"
    by blast
  then have r1: "convert_data d m (Some ks) ''id'' = Some (Some ''jdoe'')"
    by (simp add: dict_get_def d_def)
  from t k2 have "convert_data d m (Some ks) ''mail'' = d ''mail''"
    by blast
  then have r2: "convert_data d m (Some ks) ''mail'' = Some (Some ''j@x.com'')"
    by (simp add: d_def)
  from t k3 have r3: "convert_data d m (Some ks) ''extra'' = Some None"
    by blast
  from r0 r1 r2 r3 k1 k2 k3 show ?thesis
    unfolding d_def m_def ks_def by simp
qed

section \<open>Properties of \<^verbatim>\<open>convert_data\<close>, continued\<close>

text \<open>
  C10. Without a list of allowed keys: at a key of the data that is also a target of the
  mapping, the result of \<^verbatim>\<open>convert_data\<close> holds the value \<^verbatim>\<open>data.get(source)\<close> of
  the source key (\<^verbatim>\<open>None\<close> when the data has no such key) in place of the data's own
  value; a key of the data that the mapping uses as a source and not as a target is
  absent from the result.
\<close>

theorem convert_data_target_overrides:
  "(\<forall>k s. k \<in> dom data \<and> mapping k = Some s
        \<longrightarrow> convert_data data mapping None k = Some (dict_get data s)
            \<and> (s \<notin> dom data \<longrightarrow> convert_data data mapping None k = Some None)
            \<and> (\<forall>v. data s = Some v \<longrightarrow> convert_data data mapping None k = Some v))
   \<and> (\<forall>k. k \<in> dom data \<and> k \<in> ran mapping \<and> k \<notin> dom mapping
        \<longrightarrow> convert_data data mapping None k = None)"
  by (auto simp: convert_data_no_keys dict_get_def dom_def split: option.splits)

theorem convert_data_target_overrides_witness:
  "''id'' \<in> dom [''id'' \<mapsto> Some ''old'', ''uid'' \<mapsto> Some ''jdoe'']
   \<and> [''id'' \<mapsto> ''uid''] ''id'' = Some ''uid''
   \<and> convert_data [''id'' \<mapsto> Some ''old'', ''uid'' \<mapsto> Some ''jdoe''] [''id'' \<mapsto> ''uid''] None ''id''
       = Some (Some ''jdoe'')
   \<and> ''uid'' \<in> dom [''id'' \<mapsto> Some ''old'', ''uid'' \<mapsto> Some ''jdoe'']
   \<and> ''uid'' \<in> ran [''id'' \<mapsto> ''uid'']
   \<and> ''uid'' \<notin> dom [''id'' \<mapsto> ''uid'']
   \<and> convert_data [''id'' \<mapsto> Some ''old'', ''uid'' \<mapsto> Some ''jdoe''] [''id'' \<mapsto> ''uid''] None ''uid''
       = None"
  using convert_data_target_overrides
    [of "[''id'' \<mapsto> Some ''old'', ''uid'' \<mapsto> Some ''jdoe'']" "[''id'' \<mapsto> ''uid'']"]
  by (simp add: dict_get_def)

section \<open>Properties of \<^verbatim>\<open>get_canonical_provider_map\<close>\<close>

lemma expand_link_Name:
  "expand_link (Name s) =
     \<lparr>link_identity_provider = Some s, link_user_provider = None, link_mapping = None\<rparr>"
  by (simp add: expand_link_def)

lemma expand_link_LinkObject: "expand_link (LinkObject l) = l"
  by (simp add: expand_link_def)

text \<open>
  C5. The canonical map has the keys of the configured map. Under each key it holds one
  link for each entry of the configured value, in the order of the entries (a single
  value counts as a list of one entry): the link at the position of a string names that
  string as identity provider and has no mapping of its own, so that the field mapping
  read from it is the empty default; the link at the position of a link object is that
  object.
\<close>

theorem canonical_map_preserves_order:
  "dom (get_canonical_provider_map pm) = dom pm
   \<and> (\<forall>a v. pm a = Some v \<longrightarrow>
        (\<exists>links. get_canonical_provider_map pm a = Some links
           \<and> length links = length (as_sequence v)
           \<and> (\<forall>i s. i < length links \<and> as_sequence v ! i = Name s
                \<longrightarrow> links ! i = \<lparr>link_identity_provider = Some s, link_user_provider = None,
                                   link_mapping = None\<rparr>
                    \<and> link_get_mapping (links ! i) = Map.empty)
           \<and> (\<forall>i l. i < length links \<and> as_sequence v ! i = LinkObject l \<longrightarrow> links ! i = l)))
   \<and> as_sequence (Single p) = [p]
   \<and> as_sequence (Sequence ps) = ps"
  by (auto simp: get_canonical_provider_map_def canonical_links_def as_sequence_def
        expand_link_Name expand_link_LinkObject link_get_mapping_def dom_def
      split: option.splits)

theorem canonical_map_preserves_order_witness:
  "[''a'' \<mapsto> Sequence [Name ''x'', LinkObject \<lparr>link_identity_provider = Some ''y'',
        link_user_provider = None, link_mapping = Some [''id'' \<mapsto> ''uid'']\<rparr>]] ''a''
     = Some (Sequence [Name ''x'', LinkObject \<lparr>link_identity_provider = Some ''y'',
        link_user_provider = None, link_mapping = Some [''id'' \<mapsto> ''uid'']\<rparr>])
   \<and> get_canonical_provider_map
        [''a'' \<mapsto> Sequence [Name ''x'', LinkObject \<lparr>link_identity_provider = Some ''y'',
           link_user_provider = None, link_mapping = Some [''id'' \<mapsto> ''uid'']\<rparr>]] ''a''
     = Some [\<lparr>link_identity_provider = Some ''x'', link_user_provider = None,
               link_mapping = None\<rparr>,
             \<lparr>link_identity_provider = Some ''y'', link_user_provider = None,
               link_mapping = Some [''id'' \<mapsto> ''uid'']\<rparr>]"
proof -
  define o1 where "o1 = \<lparr>link_identity_provider = Some ''y'', link_user_provider = None,
              link_mapping = Some [''id'' \<mapsto> ''uid'']\<rparr>"
  define pm where "pm = [''a'' \<mapsto> Sequence [Name ''x'', LinkObject o1]]"
  have v: "pm ''a'' = Some (Sequence [Name ''x'', LinkObject o1])"
    by (simp add: pm_def)
  note t = canonical_map_preserves_order [of pm "Name ''x''" "[Name ''x'', LinkObject o1]"]
  from t have sq: "as_sequence (Sequence [Name ''x'', LinkObject o1]) = [Name ''x'', LinkObject o1]"
    by blast
  from t v obtain links where l: "get_canonical_provider_map pm ''a'' = Some links"
    and n: "length links = length (as_sequence (Sequence [Name ''x'', LinkObject o1]))"
    and a: "\<forall>i s. i < length links \<and> as_sequence (Sequence [Name ''x'', LinkObject o1]) ! i = Name s
              \<longrightarrow> links ! i = \<lparr>link_identity_provider = Some s, link_user_provider = None,
                                 link_mapping = None\<rparr>
                  \<and> link_get_mapping (links ! i) = Map.empty"
    and b: "\<forall>i l. i < length links \<and> as_sequence (Sequence [Name ''x'', LinkObject o1]) ! i = LinkObject l
              \<longrightarrow> links ! i = l"
    by blast
  from n sq have n2: "length links = 2" by simp
  from a [rule_format, of 0 "''x''"] n2 sq
  have l0: "links ! 0 = \<lparr>link_identity_provider = Some ''x'', link_user_provider = None,
                                 link_mapping = None\<rparr>"
    by simp
  from b [rule_format, of 1 o1] n2 sq have l1: "links ! 1 = o1"
    by simp
  from n2 obtain p q where pq: "links = [p, q]"
    by (cases links; cases "tl links") auto
  with l0 l1 have "links = [\<lparr>link_identity_provider = Some ''x'', link_user_provider = None,
                                 link_mapping = None\<rparr>, o1]"
    by simp
  with l v show ?thesis unfolding pm_def o1_def by simp
qed

section \<open>Properties of \<^verbatim>\<open>validate_provider_map\<close>\<close>

lemma validate_unlinked:
  "dom (auth_providers st) - dom (provider_map st) \<noteq> {} \<Longrightarrow>
   validate_provider_map st =
     Inl (ValueError_names ''Auth providers not linked to identity providers: ''
            (dom (auth_providers st) - dom (provider_map st)))"
  by (simp add: validate_provider_map_def Let_def)

lemma targeted_providers_eq:
  "\<Union> ((\<lambda>p. set_option (link_identity_provider p)) ` L) =
     {n. \<exists>l. l \<in> L \<and> link_identity_provider l = Some n}"
  by (auto elim!: option.set_cases)

lemma validate_linked:
  assumes "dom (auth_providers st) \<subseteq> dom (provider_map st)"
      and "None \<notin> link_identity_provider ` all_links (provider_map st)"
      and "identity_providers st = Some ips"
  shows "validate_provider_map st =
     (if {n. \<exists>l. l \<in> all_links (provider_map st) \<and> link_identity_provider l = Some n} - dom ips \<noteq> {}
      then Inl (ValueError_names ''Broken identity provider links: ''
             ({n. \<exists>l. l \<in> all_links (provider_map st) \<and> link_identity_provider l = Some n} - dom ips))
      else Inr ())"
proof -
  from assms(1) have "dom (auth_providers st) - dom (provider_map st) = {}" by blast
  with assms(2,3) show ?thesis
    by (simp add: validate_provider_map_def Let_def targeted_providers_eq)
qed

text \<open>
  On the state that \<^verbatim>\<open>_MultiAuthState.__init__\<close> builds, the first check passes and
  the second check reads the attribute that the constructor does not set.
\<close>

lemma validate_provider_map_init:
  "validate_provider_map MultiAuthState_init = Inl (AttributeError ''identity_providers'')"
  by (simp add: validate_provider_map_def MultiAuthState_init_def all_links_def)

text \<open>
  C1 as claimed fails: with the authentication providers \<open>a\<close> and \<open>b\<close> registered, the map
  \<^verbatim>\<open>{a: [x]}\<close> and no identity provider registered, the failure names \<open>b\<close> and not the
  broken reference \<open>x\<close>.
\<close>

theorem validate_provider_map_counterexample:
  "validate_provider_map
     \<lparr>auth_providers = [''a'' \<mapsto> (), ''b'' \<mapsto> ()], user_providers = Map.empty,
      provider_map = [''a'' \<mapsto> [\<lparr>link_identity_provider = Some ''x'',
                                 link_user_provider = None, link_mapping = None\<rparr>]],
      identity_providers = Some (Map.empty :: string \<rightharpoonup> unit)\<rparr>
     = Inl (ValueError_names ''Auth providers not linked to identity providers: '' {''b''})
   \<and> ''x'' \<notin> {''b''}
   \<and> \<lparr>link_identity_provider = Some ''x'', link_user_provider = None, link_mapping = None\<rparr>
       \<in> all_links [''a'' \<mapsto> [\<lparr>link_identity_provider = Some ''x'',
                                 link_user_provider = None, link_mapping = None\<rparr>]]
   \<and> ''x'' \<notin> dom (Map.empty :: string \<rightharpoonup> unit)"
  by (auto simp: validate_provider_map_def Let_def all_links_def)

lemma all_links_single: "all_links [a \<mapsto> ls] = set ls"
  by (simp add: all_links_def)

text \<open>
  C1, amended. \<^verbatim>\<open>validate_provider_map\<close> stops at the first category of problems.
  When some registered authentication provider is not a key of the map, it fails with
  the complete set of these names, whatever the links are. When every registered
  authentication provider is a key of the map, every link names its identity provider
  and the state holds the identity providers, it fails with the complete set of the
  identity-provider names that the links name and that are not registered, if there
  is one, and succeeds otherwise.
\<close>

theorem validate_provider_map_first_category:
  "(dom (auth_providers st) - dom (provider_map st) \<noteq> {}
      \<longrightarrow> validate_provider_map st =
            Inl (ValueError_names ''Auth providers not linked to identity providers: ''
                   (dom (auth_providers st) - dom (provider_map st))))
   \<and> (dom (auth_providers st) \<subseteq> dom (provider_map st)
        \<and> None \<notin> link_identity_provider ` all_links (provider_map st)
        \<and> identity_providers st = Some ips
      \<longrightarrow> (\<not> {n. \<exists>l. l \<in> all_links (provider_map st) \<and> link_identity_provider l = Some n}
                 \<subseteq> dom ips
             \<longrightarrow> validate_provider_map st =
                   Inl (ValueError_names ''Broken identity provider links: ''
                          ({n. \<exists>l. l \<in> all_links (provider_map st)
                                  \<and> link_identity_provider l = Some n} - dom ips)))
          \<and> ({n. \<exists>l. l \<in> all_links (provider_map st) \<and> link_identity_provider l = Some n}
                 \<subseteq> dom ips
             \<longrightarrow> validate_provider_map st = Inr ()))"
proof (intro conjI impI)
  assume "dom (auth_providers st) - dom (provider_map st) \<noteq> {}"
  then show "validate_provider_map st =
            Inl (ValueError_names ''Auth providers not linked to identity providers: ''
                   (dom (auth_providers st) - dom (provider_map st)))"
    by (rule validate_unlinked)
next
  assume h: "dom (auth_providers st) \<subseteq> dom (provider_map st)
        \<and> None \<notin> link_identity_provider ` all_links (provider_map st)
        \<and> identity_providers st = Some ips"
    and b: "\<not> {n. \<exists>l. l \<in> all_links (provider_map st) \<and> link_identity_provider l = Some n}
                 \<subseteq> dom ips"
  from b have "{n. \<exists>l. l \<in> all_links (provider_map st) \<and> link_identity_provider l = Some n}
                 - dom ips \<noteq> {}" by blast
  with h show "validate_provider_map st =
                   Inl (ValueError_names ''Broken identity provider links: ''
                          ({n. \<exists>l. l \<in> all_links (provider_map st)
                                  \<and> link_identity_provider l = Some n} - dom ips))"
    by (simp add: validate_linked)
next
  assume h: "dom (auth_providers st) \<subseteq> dom (provider_map st)
        \<and> None \<notin> link_identity_provider ` all_links (provider_map st)
        \<and> identity_providers st = Some ips"
    and b: "{n. \<exists>l. l \<in> all_links (provider_map st) \<and> link_identity_provider l = Some n}
                 \<subseteq> dom ips"
  from b have "{n. \<exists>l. l \<in> all_links (provider_map st) \<and> link_identity_provider l = Some n}
                 - dom ips = {}" by blast
  with h show "validate_provider_map st = Inr ()"
    by (simp add: validate_linked)
qed

theorem validate_provider_map_first_category_witness:
  "validate_provider_map
     \<lparr>auth_providers = [''a'' \<mapsto> (), ''b'' \<mapsto> ()], user_providers = Map.empty,
      provider_map = [''a'' \<mapsto> [\<lparr>link_identity_provider = Some ''x'',
                                 link_user_provider = None, link_mapping = None\<rparr>]],
      identity_providers = Some (Map.empty :: string \<rightharpoonup> unit)\<rparr>
     = Inl (ValueError_names ''Auth providers not linked to identity providers: '' {''b''})
   \<and> validate_provider_map
     \<lparr>auth_providers = [''a'' \<mapsto> ()], user_providers = Map.empty,
      provider_map = [''a'' \<mapsto> [\<lparr>link_identity_provider = Some ''x'',
                                 link_user_provider = None, link_mapping = None\<rparr>]],
      identity_providers = Some (Map.empty :: string \<rightharpoonup> unit)\<rparr>
     = Inl (ValueError_names ''Broken identity provider links: '' {''x''})
   \<and> validate_provider_map
     \<lparr>auth_providers = [''a'' \<mapsto> ()], user_providers = Map.empty,
      provider_map = [''a'' \<mapsto> [\<lparr>link_identity_provider = Some ''x'',
                                 link_user_provider = None, link_mapping = None\<rparr>]],
      identity_providers = Some [''x'' \<mapsto> ()]\<rparr>
     = Inr ()"
proof (intro conjI)
  let ?l = "\<lparr>link_identity_provider = Some ''x'', link_user_provider = None,
              link_mapping = None\<rparr>"
  let ?s1 = "\<lparr>auth_providers = [''a'' \<mapsto> (), ''b'' \<mapsto> ()], user_providers = Map.empty,
      provider_map = [''a'' \<mapsto> [?l]],
      identity_providers = Some (Map.empty :: string \<rightharpoonup> unit)\<rparr>"
  have d: "dom (auth_providers ?s1) - dom (provider_map ?s1) = {''b''}" by auto
  show "validate_provider_map ?s1
     = Inl (ValueError_names ''Auth providers not linked to identity providers: '' {''b''})"
    using validate_provider_map_first_category [of ?s1] d by simp
next
  let ?l = "\<lparr>link_identity_provider = Some ''x'', link_user_provider = None,
              link_mapping = None\<rparr>"
  let ?s2 = "\<lparr>auth_providers = [''a'' \<mapsto> ()], user_providers = Map.empty,
      provider_map = [''a'' \<mapsto> [?l]],
      identity_providers = Some (Map.empty :: string \<rightharpoonup> unit)\<rparr>"
  have t: "{n. \<exists>l. l \<in> all_links (provider_map ?s2) \<and> link_identity_provider l = Some n}
             = {''x''}"
    by (auto simp: all_links_single)
  show "validate_provider_map ?s2
     = Inl (ValueError_names ''Broken identity provider links: '' {''x''})"
    using validate_provider_map_first_category [of ?s2 Map.empty]
    by (simp add: t all_links_single)
next
  let ?l = "\<lparr>link_identity_provider = Some ''x'', link_user_provider = None,
              link_mapping = None\<rparr>"
  let ?s3 = "\<lparr>auth_providers = [''a'' \<mapsto> ()], user_providers = Map.empty,
      provider_map = [''a'' \<mapsto> [?l]],
      identity_providers = Some [''x'' \<mapsto> ()]\<rparr>"
  have t: "{n. \<exists>l. l \<in> all_links (provider_map ?s3) \<and> link_identity_provider l = Some n}
             = {''x''}"
    by (auto simp: all_links_single)
  show "validate_provider_map ?s3 = Inr ()"
    using validate_provider_map_first_category [of ?s3 "[''x'' \<mapsto> ()]"]
    by (simp add: t all_links_single)
qed

section \<open>Properties of \<^verbatim>\<open>handle_auth_info\<close>\<close>

lemma find_users_no_match:
  "(\<forall>l \<in> set links. \<exists>pn p. link_user_provider l = Some pn \<and> ups pn = Some p
        \<and> get_user_from_auth p (AuthInfo_map ai (link_get_mapping l)) = None)
   \<Longrightarrow> find_users ups cfg ai links users = Inr users"
  by (induction links) auto

text \<open>
  The case that no provider matches, on links that carry the key
  \<^verbatim>\<open>'user_provider'\<close>. When the map has links for the provider of the authentication
  and each of them names, under that key, a registered user provider that answers
  \<^verbatim>\<open>None\<close>, then with \<^verbatim>\<open>MULTIAUTH_REQUIRE_USER\<close> set \<^verbatim>\<open>handle_auth_info\<close>
  raises \<^verbatim>\<open>UserRetrievalFailed\<close>, whatever \<^verbatim>\<open>MULTIAUTH_ALL_MATCHING_USERS\<close> is
  and whether a callback is registered or not; with \<^verbatim>\<open>MULTIAUTH_REQUIRE_USER\<close>
  unset the registered callback is called, with the empty list when
  \<^verbatim>\<open>MULTIAUTH_ALL_MATCHING_USERS\<close> is set and with \<^verbatim>\<open>None\<close> otherwise.
\<close>

lemma handle_auth_info_no_match:
  assumes "provider_map st (auth_provider_name ai) = Some links"
      and "\<forall>l \<in> set links. \<exists>pn p. link_user_provider l = Some pn
             \<and> user_providers st pn = Some p
             \<and> get_user_from_auth p (AuthInfo_map ai (link_get_mapping l)) = None"
  shows "(MULTIAUTH_REQUIRE_USER cfg
            \<longrightarrow> handle_auth_info cb st cfg ai app = Inl (UserRetrievalFailed ''No user found''))
       \<and> (\<not> MULTIAUTH_REQUIRE_USER cfg \<and> cb = Some callback
            \<longrightarrow> handle_auth_info cb st cfg ai app =
                  Inr (callback (if MULTIAUTH_ALL_MATCHING_USERS cfg then AllUsers []
                                 else OneUser None) app))"
proof -
  from assms(2) have "find_users (user_providers st) cfg ai links [] = Inr []"
    by (rule find_users_no_match)
  with assms(1) show ?thesis
    by (simp add: handle_auth_info_def login_finished_def)
qed

lemma handle_auth_info_no_match_example:
  "handle_auth_info (Some (\<lambda>arg app. arg # app))
     \<lparr>auth_providers = (Map.empty :: string \<rightharpoonup> unit), user_providers = [''x'' \<mapsto> \<lparr>get_user_from_auth = (\<lambda>i. None)\<rparr>],
      provider_map = [''a'' \<mapsto> [\<lparr>link_identity_provider = None, link_user_provider = Some ''x'',
                                 link_mapping = None\<rparr>]],
      identity_providers = None\<rparr>
     \<lparr>MULTIAUTH_ALL_MATCHING_USERS = True, MULTIAUTH_REQUIRE_USER = True\<rparr>
     \<lparr>auth_provider_name = ''a'', auth_data = [''uid'' \<mapsto> Some ''jdoe'']\<rparr> []
    = (Inl (UserRetrievalFailed ''No user found'') :: error + (unit login_argument list))
   \<and> handle_auth_info (Some (\<lambda>arg app. arg # app))
     \<lparr>auth_providers = (Map.empty :: string \<rightharpoonup> unit), user_providers = [''x'' \<mapsto> \<lparr>get_user_from_auth = (\<lambda>i. None)\<rparr>],
      provider_map = [''a'' \<mapsto> [\<lparr>link_identity_provider = None, link_user_provider = Some ''x'',
                                 link_mapping = None\<rparr>]],
      identity_providers = None\<rparr>
     \<lparr>MULTIAUTH_ALL_MATCHING_USERS = False, MULTIAUTH_REQUIRE_USER = False\<rparr>
     \<lparr>auth_provider_name = ''a'', auth_data = [''uid'' \<mapsto> Some ''jdoe'']\<rparr> []
    = (Inr [OneUser None] :: error + (unit login_argument list))
   \<and> handle_auth_info (Some (\<lambda>arg app. arg # app))
     \<lparr>auth_providers = (Map.empty :: string \<rightharpoonup> unit), user_providers = [''x'' \<mapsto> \<lparr>get_user_from_auth = (\<lambda>i. None)\<rparr>],
      provider_map = [''a'' \<mapsto> [\<lparr>link_identity_provider = None, link_user_provider = Some ''x'',
                                 link_mapping = None\<rparr>]],
      identity_providers = None\<rparr>
     \<lparr>MULTIAUTH_ALL_MATCHING_USERS = True, MULTIAUTH_REQUIRE_USER = False\<rparr>
     \<lparr>auth_provider_name = ''a'', auth_data = [''uid'' \<mapsto> Some ''jdoe'']\<rparr> []
    = (Inr [AllUsers []] :: error + (unit login_argument list))"
proof -
  define l where "l = \<lparr>link_identity_provider = None, link_user_provider = Some ''x'',
                        link_mapping = None\<rparr>"
  define p :: "unit UserProvider" where "p = \<lparr>get_user_from_auth = (\<lambda>i. None)\<rparr>"
  define st :: "(unit, unit UserProvider) MultiAuthState" where
    "st = \<lparr>auth_providers = Map.empty, user_providers = [''x'' \<mapsto> p],
           provider_map = [''a'' \<mapsto> [l]], identity_providers = None\<rparr>"
  define ai where "ai = \<lparr>auth_provider_name = ''a'', auth_data = [''uid'' \<mapsto> Some ''jdoe'']\<rparr>"
  define cb :: "unit login_argument \<Rightarrow> unit login_argument list \<Rightarrow> unit login_argument list"
    where "cb = (\<lambda>arg app. arg # app)"
  have h1: "provider_map st (auth_provider_name ai) = Some [l]"
    by (simp add: st_def ai_def)
  have h2: "\<forall>k \<in> set [l]. \<exists>pn q. link_user_provider k = Some pn
             \<and> user_providers st pn = Some q
             \<and> get_user_from_auth q (AuthInfo_map ai (link_get_mapping k)) = None"
    by (simp add: st_def l_def p_def)
  note t = handle_auth_info_no_match [OF h1 h2]
  have a: "handle_auth_info (Some cb) st
             \<lparr>MULTIAUTH_ALL_MATCHING_USERS = True, MULTIAUTH_REQUIRE_USER = True\<rparr> ai []
           = Inl (UserRetrievalFailed ''No user found'')"
    using t [where cfg = "\<lparr>MULTIAUTH_ALL_MATCHING_USERS = True, MULTIAUTH_REQUIRE_USER = True\<rparr>"
               and cb = "Some cb" and callback = cb and app = "[]"]
    by simp
  have b: "handle_auth_info (Some cb) st
             \<lparr>MULTIAUTH_ALL_MATCHING_USERS = False, MULTIAUTH_REQUIRE_USER = False\<rparr> ai []
           = Inr [OneUser None]"
    using t [where cfg = "\<lparr>MULTIAUTH_ALL_MATCHING_USERS = False, MULTIAUTH_REQUIRE_USER = False\<rparr>"
               and cb = "Some cb" and callback = cb and app = "[]"]
    by (simp add: cb_def)
  have c: "handle_auth_info (Some cb) st
             \<lparr>MULTIAUTH_ALL_MATCHING_USERS = True, MULTIAUTH_REQUIRE_USER = False\<rparr> ai []
           = Inr [AllUsers []]"
    using t [where cfg = "\<lparr>MULTIAUTH_ALL_MATCHING_USERS = True, MULTIAUTH_REQUIRE_USER = False\<rparr>"
               and cb = "Some cb" and callback = cb and app = "[]"]
    by (simp add: cb_def)
  from a b c show ?thesis
    unfolding st_def ai_def cb_def p_def l_def by simp
qed

text \<open>
  The loop on links that carry the key \<^verbatim>\<open>'user_provider'\<close>. Without
  \<^verbatim>\<open>MULTIAUTH_ALL_MATCHING_USERS\<close> it ends at the first link whose provider answers a
  user, and does not look at the links after it; with the option set it collects the
  users of all links, in the order of the links.
\<close>

lemma find_users_first_match:
  assumes "\<not> MULTIAUTH_ALL_MATCHING_USERS cfg"
      and "\<forall>l \<in> set pre. \<exists>pn p. link_user_provider l = Some pn \<and> ups pn = Some p
             \<and> get_user_from_auth p (AuthInfo_map ai (link_get_mapping l)) = None"
      and "link_user_provider l = Some pn" and "ups pn = Some p"
      and "get_user_from_auth p (AuthInfo_map ai (link_get_mapping l)) = Some u"
  shows "find_users ups cfg ai (pre @ l # post) users = Inr (users @ [u])"
  using assms by (induction pre) auto

lemma find_users_all_matches:
  assumes "MULTIAUTH_ALL_MATCHING_USERS cfg"
      and "list_all2 (\<lambda>l p. \<exists>pn. link_user_provider l = Some pn \<and> ups pn = Some p) links ps"
  shows "find_users ups cfg ai links users =
           Inr (users @ List.map_filter
                  (\<lambda>(l, p). get_user_from_auth p (AuthInfo_map ai (link_get_mapping l)))
                  (zip links ps))"
  using assms(2)
proof (induction links ps arbitrary: users rule: list_all2_induct)
  case Nil
  then show ?case by simp
next
  case (Cons l p links ps)
  then show ?case
    using assms(1) by (auto split: option.splits)
qed

text \<open>
  C2 fails on a link that \<^verbatim>\<open>get_canonical_provider_map\<close> makes from a string. With
  the configured map \<^verbatim>\<open>{'a': 'x'}\<close> and the user provider \<open>x\<close> registered, a
  provider that answers \<^verbatim>\<open>None\<close> to every authentication, the only linked provider
  has no match. With \<^verbatim>\<open>MULTIAUTH_REQUIRE_USER\<close> set the resolution of an
  authentication by \<open>a\<close> raises \<^verbatim>\<open>KeyError\<close>, not \<^verbatim>\<open>UserRetrievalFailed\<close>; with
  the option unset and a callback registered it raises \<^verbatim>\<open>KeyError\<close> too, and the
  callback is not called. The loop reads \<^verbatim>\<open>link['user_provider']\<close>, and the link has
  the name under \<^verbatim>\<open>'identity_provider'\<close>.
\<close>

theorem handle_auth_info_no_match_name_link:
  "handle_auth_info cb
     \<lparr>auth_providers = aps,
      user_providers = [''x'' \<mapsto> \<lparr>get_user_from_auth = (\<lambda>i. None)\<rparr>],
      provider_map = get_canonical_provider_map [''a'' \<mapsto> Single (Name ''x'')],
      identity_providers = ips\<rparr>
     \<lparr>MULTIAUTH_ALL_MATCHING_USERS = all_matching, MULTIAUTH_REQUIRE_USER = True\<rparr>
     \<lparr>auth_provider_name = ''a'', auth_data = d\<rparr> app
   = Inl (KeyError ''user_provider'')
   \<and> handle_auth_info (Some callback)
     \<lparr>auth_providers = aps,
      user_providers = [''x'' \<mapsto> \<lparr>get_user_from_auth = (\<lambda>i. None)\<rparr>],
      provider_map = get_canonical_provider_map [''a'' \<mapsto> Single (Name ''x'')],
      identity_providers = ips\<rparr>
     \<lparr>MULTIAUTH_ALL_MATCHING_USERS = all_matching, MULTIAUTH_REQUIRE_USER = False\<rparr>
     \<lparr>auth_provider_name = ''a'', auth_data = d\<rparr> app
   = Inl (KeyError ''user_provider'')
   \<and> KeyError ''user_provider'' \<noteq> UserRetrievalFailed ''No user found''"
  by (simp add: handle_auth_info_def get_canonical_provider_map_def canonical_links_def
        as_sequence_def expand_link_def)

text \<open>
  C3 fails on a canonical map that \<^verbatim>\<open>get_canonical_provider_map\<close> makes from a string.
  It stores the name under the key \<^verbatim>\<open>'identity_provider'\<close>, and the loop of
  \<^verbatim>\<open>handle_auth_info\<close> reads \<^verbatim>\<open>link['user_provider']\<close>: with the configured map
  \<^verbatim>\<open>{'a': 'x'}\<close> and the user provider \<open>x\<close> registered, the resolution of an
  authentication by \<open>a\<close> raises \<^verbatim>\<open>KeyError\<close> at the first link, whatever the provider
  would answer, and no callback is called.
\<close>

theorem handle_auth_info_canonical_name_link:
  "handle_auth_info cb
     \<lparr>auth_providers = aps, user_providers = [''x'' \<mapsto> p],
      provider_map = get_canonical_provider_map [''a'' \<mapsto> Single (Name ''x'')],
      identity_providers = ips\<rparr>
     cfg \<lparr>auth_provider_name = ''a'', auth_data = d\<rparr> app
   = Inl (KeyError ''user_provider'')"
  by (simp add: handle_auth_info_def get_canonical_provider_map_def canonical_links_def
        as_sequence_def expand_link_def)

section \<open>Properties of the LDAP utilities\<close>

text \<open>
  C8. When no control of the list has the control type of RFC 2696,
  \<^verbatim>\<open>get_page_cookie\<close> raises \<^verbatim>\<open>LDAPServerError\<close>; otherwise it returns the cookie of
  the first control of the list that has this type.
\<close>

theorem get_page_cookie_first_paged_control:
  "((\<forall>c \<in> set server_ctrls. controlType c \<noteq> SimplePagedResultsControl_controlType)
      \<longrightarrow> get_page_cookie server_ctrls =
            Inl (LDAPServerError ''The LDAP server ignores the RFC 2696 specification''))
   \<and> (\<forall>pre c post. server_ctrls = pre @ c # post
          \<and> controlType c = SimplePagedResultsControl_controlType
          \<and> (\<forall>d \<in> set pre. controlType d \<noteq> SimplePagedResultsControl_controlType)
        \<longrightarrow> get_page_cookie server_ctrls = Inr (cookie c))"
proof (intro conjI allI impI)
  assume "\<forall>c \<in> set server_ctrls. controlType c \<noteq> SimplePagedResultsControl_controlType"
  then have "filter (\<lambda>ctrl. controlType ctrl = SimplePagedResultsControl_controlType)
               server_ctrls = []"
    by (simp add: filter_empty_conv)
  then show "get_page_cookie server_ctrls =
            Inl (LDAPServerError ''The LDAP server ignores the RFC 2696 specification'')"
    by (simp add: get_page_cookie_def)
next
  fix pre c post
  assume h: "server_ctrls = pre @ c # post
          \<and> controlType c = SimplePagedResultsControl_controlType
          \<and> (\<forall>d \<in> set pre. controlType d \<noteq> SimplePagedResultsControl_controlType)"
  then have "filter (\<lambda>ctrl. controlType ctrl = SimplePagedResultsControl_controlType) pre = []"
    by (simp add: filter_empty_conv)
  with h show "get_page_cookie server_ctrls = Inr (cookie c)"
    by (simp add: get_page_cookie_def)
qed

theorem get_page_cookie_first_paged_control_witness:
  "get_page_cookie [\<lparr>controlType = ''2.16.840.1.113730.3.4.2'', cookie = ''''\<rparr>]
     = Inl (LDAPServerError ''The LDAP server ignores the RFC 2696 specification'')
   \<and> get_page_cookie
       [\<lparr>controlType = ''2.16.840.1.113730.3.4.2'', cookie = ''''\<rparr>,
        \<lparr>controlType = ''1.2.840.113556.1.4.319'', cookie = ''c1''\<rparr>,
        \<lparr>controlType = ''1.2.840.113556.1.4.319'', cookie = ''c2''\<rparr>]
     = Inr ''c1''"
proof
  show "get_page_cookie [\<lparr>controlType = ''2.16.840.1.113730.3.4.2'', cookie = ''''\<rparr>]
     = Inl (LDAPServerError ''The LDAP server ignores the RFC 2696 specification'')"
    using get_page_cookie_first_paged_control
      [of "[\<lparr>controlType = ''2.16.840.1.113730.3.4.2'', cookie = ''''\<rparr>]"]
    by (simp add: SimplePagedResultsControl_controlType_def)
next
  let ?a = "\<lparr>controlType = ''2.16.840.1.113730.3.4.2'', cookie = ''''\<rparr>"
  let ?b = "\<lparr>controlType = ''1.2.840.113556.1.4.319'', cookie = ''c1''\<rparr>"
  let ?c = "\<lparr>controlType = ''1.2.840.113556.1.4.319'', cookie = ''c2''\<rparr>"
  from get_page_cookie_first_paged_control [of "[?a, ?b, ?c]"]
  have "[?a, ?b, ?c] = [?a] @ ?b # [?c]
          \<and> controlType ?b = SimplePagedResultsControl_controlType
          \<and> (\<forall>d \<in> set [?a]. controlType d \<noteq> SimplePagedResultsControl_controlType)
        \<longrightarrow> get_page_cookie [?a, ?b, ?c] = Inr (cookie ?b)"
    by blast
  then show "get_page_cookie [?a, ?b, ?c] = Inr ''c1''"
    by (simp add: SimplePagedResultsControl_controlType_def)
qed

text \<open>
  C9. \<^verbatim>\<open>find_one\<close> searches the subtree with the size limit 1. When the search
  returns a list of results, \<^verbatim>\<open>find_one\<close> returns the first pair of the list whose
  distinguished name is a non-empty string, and the pair \<^verbatim>\<open>(None, None)\<close> when the
  list has no such pair, the empty list included.
\<close>

theorem find_one_first_entry_with_dn:
  assumes "settings current_ldap ''timeout'' = Some t"
      and "search_ext_s current_ldap
             \<lparr>req_base = base_dn, req_scope = SCOPE_SUBTREE, req_attrlist = attributes,
              req_filterstr = search_filter, req_timeout = t, req_sizelimit = 1\<rparr>
           = Inr entry"
  shows "(\<forall>pre dn d post. entry = pre @ (Some dn, d) # post \<and> dn \<noteq> []
            \<and> (\<forall>e \<in> set pre. \<not> truthy (fst e))
          \<longrightarrow> find_one current_ldap base_dn search_filter attributes = Inr (Some dn, Some d))
       \<and> ((\<forall>e \<in> set entry. \<not> truthy (fst e))
          \<longrightarrow> find_one current_ldap base_dn search_filter attributes = Inr (None, None))"
proof (intro conjI allI impI)
  fix pre dn d post
  assume h: "entry = pre @ (Some dn, d) # post \<and> dn \<noteq> []
            \<and> (\<forall>e \<in> set pre. \<not> truthy (fst e))"
  then have "filter (\<lambda>(dn, d). truthy dn) pre = []"
    by (auto simp: filter_empty_conv)
  with h have "filter (\<lambda>(dn, d). truthy dn) entry = (Some dn, d) # filter (\<lambda>(dn, d). truthy dn) post"
    by (simp add: truthy_def)
  with assms show "find_one current_ldap base_dn search_filter attributes = Inr (Some dn, Some d)"
    by (simp add: find_one_def)
next
  assume "\<forall>e \<in> set entry. \<not> truthy (fst e)"
  then have "filter (\<lambda>(dn, d). truthy dn) entry = []"
    by (auto simp: filter_empty_conv)
  with assms show "find_one current_ldap base_dn search_filter attributes = Inr (None, None)"
    by (simp add: find_one_def)
qed

theorem find_one_first_entry_with_dn_witness:
  "find_one \<lparr>search_ext_s = (\<lambda>r. Inr [(None, ''ref''), (Some '''', ''e''),
                                       (Some ''cn=jdoe'', ''d1''), (Some ''cn=x'', ''d2'')]),
             settings = [''timeout'' \<mapsto> 30]\<rparr> ''dc=example'' ''(uid=jdoe)'' None
     = Inr (Some ''cn=jdoe'', Some ''d1'')
   \<and> find_one \<lparr>search_ext_s = (\<lambda>r. Inr ([] :: (string option \<times> string) list)),
               settings = [''timeout'' \<mapsto> 30]\<rparr> ''dc=example'' ''(uid=jdoe)'' None
     = Inr (None, None)"
proof
  let ?es = "[(None, ''ref''), (Some '''', ''e''), (Some ''cn=jdoe'', ''d1''), (Some ''cn=x'', ''d2'')]"
  let ?ctx = "\<lparr>search_ext_s = (\<lambda>r. Inr ?es), settings = [''timeout'' \<mapsto> 30]\<rparr>"
  have h1: "settings ?ctx ''timeout'' = Some 30" by simp
  have h2: "search_ext_s ?ctx
             \<lparr>req_base = ''dc=example'', req_scope = SCOPE_SUBTREE, req_attrlist = None,
              req_filterstr = ''(uid=jdoe)'', req_timeout = 30, req_sizelimit = 1\<rparr>
           = Inr ?es" by simp
  from find_one_first_entry_with_dn [OF h1 h2]
  have "?es = [(None, ''ref''), (Some '''', ''e'')] @ (Some ''cn=jdoe'', ''d1'') # [(Some ''cn=x'', ''d2'')]
          \<and> ''cn=jdoe'' \<noteq> []
          \<and> (\<forall>e \<in> set [(None, ''ref''), (Some '''', ''e'')]. \<not> truthy (fst e))
        \<longrightarrow> find_one ?ctx ''dc=example'' ''(uid=jdoe)'' None = Inr (Some ''cn=jdoe'', Some ''d1'')"
    by blast
  then show "find_one ?ctx ''dc=example'' ''(uid=jdoe)'' None = Inr (Some ''cn=jdoe'', Some ''d1'')"
    by (simp add: truthy_def)
next
  let ?ctx = "\<lparr>search_ext_s = (\<lambda>r. Inr ([] :: (string option \<times> string) list)),
               settings = [''timeout'' \<mapsto> 30]\<rparr>"
  have h1: "settings ?ctx ''timeout'' = Some 30" by simp
  have h2: "search_ext_s ?ctx
             \<lparr>req_base = ''dc=example'', req_scope = SCOPE_SUBTREE, req_attrlist = None,
              req_filterstr = ''(uid=jdoe)'', req_timeout = 30, req_sizelimit = 1\<rparr>
           = Inr []" by simp
  from find_one_first_entry_with_dn [OF h1 h2]
  show "find_one ?ctx ''dc=example'' ''(uid=jdoe)'' None = Inr (None, None)"
    by simp
qed

section \<open>Properties of \<^verbatim>\<open>build_search_filter\<close>\<close>

subsection \<open>Formatting a template\<close>

lemma py_percent_plain_char:
  "c \<noteq> CHR ''%'' \<Longrightarrow> py_percent (c # cs) args = map_sum id ((#) c) (py_percent cs args)"
  by (cases cs) simp_all

lemma py_percent_s:
  "py_percent (CHR ''%'' # CHR ''s'' # cs) (a # as) = map_sum id ((@) a) (py_percent cs as)"
  by (simp add: conversion_prefix_chars_def)

lemma py_percent_plain_prefix:
  "CHR ''%'' \<notin> set s \<Longrightarrow>
   py_percent (s @ rest) args = map_sum id ((@) s) (py_percent rest args)"
proof (induction s)
  case Nil
  show ?case by (cases "py_percent rest args") simp_all
next
  case (Cons c s)
  from Cons.prems have c: "c \<noteq> CHR ''%''" and s: "CHR ''%'' \<notin> set s"
    by auto
  have "py_percent ((c # s) @ rest) args = map_sum id ((#) c) (py_percent (s @ rest) args)"
    using py_percent_plain_char [OF c, of "s @ rest" args] by simp
  also have "\<dots> = map_sum id ((#) c) (map_sum id ((@) s) (py_percent rest args))"
    using Cons.IH [OF s] by (simp only:)
  also have "\<dots> = map_sum id ((@) (c # s)) (py_percent rest args)"
    by (cases "py_percent rest args") simp_all
  finally show ?case .
qed

lemma py_percent_plain: "CHR ''%'' \<notin> set s \<Longrightarrow> py_percent s [] = Inr s"
  using py_percent_plain_prefix [of s "[]" "[]"] by simp

lemma py_percent_exact_assertion:
  "py_percent (''(%s=%s)'' @ rest) (k # v # args) =
     map_sum id ((@) (''('' @ k @ ''='' @ v @ '')'')) (py_percent rest args)"
proof -
  have "py_percent (''(%s=%s)'' @ rest) (k # v # args) =
          map_sum id ((#) (CHR ''('')) (map_sum id ((@) k) (map_sum id ((#) (CHR ''=''))
            (map_sum id ((@) v) (map_sum id ((#) (CHR '')'')) (py_percent rest args)))))"
    by (simp add: py_percent_plain_char py_percent_s del: py_percent.simps(4))
  also have "\<dots> = map_sum id ((@) (''('' @ k @ ''='' @ v @ '')'')) (py_percent rest args)"
    by (cases "py_percent rest args") simp_all
  finally show ?thesis .
qed

lemma py_percent_substring_assertion:
  "py_percent (''(%s=*%s*)'' @ rest) (k # v # args) =
     map_sum id ((@) (''('' @ k @ ''=*'' @ v @ ''*)'')) (py_percent rest args)"
proof -
  have "py_percent (''(%s=*%s*)'' @ rest) (k # v # args) =
          map_sum id ((#) (CHR ''('')) (map_sum id ((@) k) (map_sum id ((#) (CHR ''=''))
            (map_sum id ((#) (CHR ''*'')) (map_sum id ((@) v) (map_sum id ((#) (CHR ''*''))
              (map_sum id ((#) (CHR '')'')) (py_percent rest args)))))))"
    by (simp add: py_percent_plain_char py_percent_s del: py_percent.simps(4))
  also have "\<dots> = map_sum id ((@) (''('' @ k @ ''=*'' @ v @ ''*)'')) (py_percent rest args)"
    by (cases "py_percent rest args") simp_all
  finally show ?thesis .
qed

lemma py_percent_exact_assertions:
  "CHR ''%'' \<notin> set tail \<Longrightarrow>
   py_percent (concat (replicate (length items) ''(%s=%s)'') @ tail)
     (concat (map (\<lambda>(k, s). [f k, f s]) items))
   = Inr (concat (map (\<lambda>(k, s). ''('' @ f k @ ''='' @ f s @ '')'') items) @ tail)"
proof (induction items)
  case Nil
  then show ?case by (simp add: py_percent_plain)
next
  case (Cons a items)
  obtain k s where a: "a = (k, s)" by (cases a)
  have "py_percent (concat (replicate (length (a # items)) ''(%s=%s)'') @ tail)
          (concat (map (\<lambda>(k, s). [f k, f s]) (a # items)))
        = py_percent (''(%s=%s)'' @ (concat (replicate (length items) ''(%s=%s)'') @ tail))
            (f k # f s # concat (map (\<lambda>(k, s). [f k, f s]) items))"
    by (simp add: a)
  also have "\<dots> = map_sum id ((@) (''('' @ f k @ ''='' @ f s @ '')''))
                      (py_percent (concat (replicate (length items) ''(%s=%s)'') @ tail)
                         (concat (map (\<lambda>(k, s). [f k, f s]) items)))"
    by (rule py_percent_exact_assertion)
  also have "\<dots> = Inr (concat (map (\<lambda>(k, s). ''('' @ f k @ ''='' @ f s @ '')'') (a # items)) @ tail)"
    by (simp add: Cons.IH [OF Cons.prems] a)
  finally show ?case .
qed

lemma py_percent_substring_assertions:
  "CHR ''%'' \<notin> set tail \<Longrightarrow>
   py_percent (concat (replicate (length items) ''(%s=*%s*)'') @ tail)
     (concat (map (\<lambda>(k, s). [f k, f s]) items))
   = Inr (concat (map (\<lambda>(k, s). ''('' @ f k @ ''=*'' @ f s @ ''*)'') items) @ tail)"
proof (induction items)
  case Nil
  then show ?case by (simp add: py_percent_plain)
next
  case (Cons a items)
  obtain k s where a: "a = (k, s)" by (cases a)
  have "py_percent (concat (replicate (length (a # items)) ''(%s=*%s*)'') @ tail)
          (concat (map (\<lambda>(k, s). [f k, f s]) (a # items)))
        = py_percent (''(%s=*%s*)'' @ (concat (replicate (length items) ''(%s=*%s*)'') @ tail))
            (f k # f s # concat (map (\<lambda>(k, s). [f k, f s]) items))"
    by (simp add: a)
  also have "\<dots> = map_sum id ((@) (''('' @ f k @ ''=*'' @ f s @ ''*)''))
                      (py_percent (concat (replicate (length items) ''(%s=*%s*)'') @ tail)
                         (concat (map (\<lambda>(k, s). [f k, f s]) items)))"
    by (rule py_percent_substring_assertion)
  also have "\<dots> = Inr (concat (map (\<lambda>(k, s). ''('' @ f k @ ''=*'' @ f s @ ''*)'') (a # items)) @ tail)"
    by (simp add: Cons.IH [OF Cons.prems] a)
  finally show ?case .
qed

lemma map_escape_items:
  "map f (concat (map (\<lambda>(k, s). [k, s]) items)) = concat (map (\<lambda>(k, s). [f k, f s]) items)"
  by (induction items) auto

lemma filter_format_assertions:
  assumes "CHR ''%'' \<notin> set type_filter"
  shows "filter_format
           (''(&'' @ concat (replicate (length items)
                      (if exact then ''(%s=%s)'' else ''(%s=*%s*)'')) @ type_filter @ '')'')
           (concat (map (\<lambda>(k, s). [k, s]) items))
         = Inr (''(&'' @ concat (map (\<lambda>(k, s).
                   ''('' @ escape_filter_chars k @ (if exact then ''='' else ''=*'')
                     @ escape_filter_chars s @ (if exact then '')'' else ''*)'')) items)
                 @ type_filter @ '')'')"
proof -
  from assms have t: "CHR ''%'' \<notin> set (type_filter @ '')'')" by simp
  have p: "CHR ''%'' \<notin> set ''(&''" by simp
  show ?thesis
  proof (cases exact)
    case True
    have "filter_format (''(&'' @ concat (replicate (length items) ''(%s=%s)'') @ type_filter @ '')'')
            (concat (map (\<lambda>(k, s). [k, s]) items))
          = map_sum id ((@) ''(&'')
              (py_percent (concat (replicate (length items) ''(%s=%s)'') @ (type_filter @ '')''))
                 (concat (map (\<lambda>(k, s). [escape_filter_chars k, escape_filter_chars s]) items)))"
      unfolding filter_format_def map_escape_items
      by (rule py_percent_plain_prefix [OF p])
    also have "\<dots> = Inr (''(&'' @ concat (map (\<lambda>(k, s).
                   ''('' @ escape_filter_chars k @ ''='' @ escape_filter_chars s @ '')'') items)
                 @ type_filter @ '')'')"
      by (simp only: py_percent_exact_assertions [OF t]) simp
    finally show ?thesis using True by simp
  next
    case False
    have "filter_format (''(&'' @ concat (replicate (length items) ''(%s=*%s*)'') @ type_filter @ '')'')
            (concat (map (\<lambda>(k, s). [k, s]) items))
          = map_sum id ((@) ''(&'')
              (py_percent (concat (replicate (length items) ''(%s=*%s*)'') @ (type_filter @ '')''))
                 (concat (map (\<lambda>(k, s). [escape_filter_chars k, escape_filter_chars s]) items)))"
      unfolding filter_format_def map_escape_items
      by (rule py_percent_plain_prefix [OF p])
    also have "\<dots> = Inr (''(&'' @ concat (map (\<lambda>(k, s).
                   ''('' @ escape_filter_chars k @ ''=*'' @ escape_filter_chars s @ ''*)'') items)
                 @ type_filter @ '')'')"
      by (simp only: py_percent_substring_assertions [OF t]) simp
    finally show ?thesis using False by simp
  qed
qed


subsection \<open>The items that survive\<close>

text \<open>
  When \<open>order\<close> lists the keys of the dictionary once each, the assertions that
  \<^verbatim>\<open>build_search_filter\<close> keeps are the items of the dictionary whose key and value
  are both non-empty strings, each once.
\<close>

lemma surviving_Nil: "surviving [] = []"
  by (simp add: surviving_def)

lemma surviving_Cons:
  "surviving ((k, v) # items) =
     (case v of None \<Rightarrow> surviving items
      | Some s \<Rightarrow> if k \<noteq> [] \<and> s \<noteq> [] then (k, s) # surviving items else surviving items)"
  by (simp add: surviving_def split: option.splits)

lemma iteritems_Nil: "iteritems [] d = []"
  by (simp add: iteritems_def)

lemma iteritems_Cons:
  "iteritems (k # order) d =
     (case d k of None \<Rightarrow> iteritems order d | Some v \<Rightarrow> (k, v) # iteritems order d)"
  by (simp add: iteritems_def split: option.splits)

lemma surviving_iteritems_Cons:
  "surviving (iteritems (k # order) d) =
     (case d k of
        Some (Some s) \<Rightarrow> if k \<noteq> [] \<and> s \<noteq> [] then (k, s) # surviving (iteritems order d)
                         else surviving (iteritems order d)
      | _ \<Rightarrow> surviving (iteritems order d))"
  by (simp add: iteritems_Cons surviving_Cons split: option.splits)

lemma set_surviving_iteritems:
  "set (surviving (iteritems order d)) =
     {(k, s). k \<in> set order \<and> d k = Some (Some s) \<and> k \<noteq> [] \<and> s \<noteq> []}"
proof (induction order)
  case Nil
  show ?case by (simp add: iteritems_Nil surviving_Nil)
next
  case (Cons k order)
  show ?case
  proof (cases "d k")
    case None
    then show ?thesis by (auto simp: surviving_iteritems_Cons Cons.IH)
  next
    case (Some v)
    show ?thesis
    proof (cases v)
      case None
      with Some show ?thesis by (auto simp: surviving_iteritems_Cons Cons.IH)
    next
      case (Some s)
      with \<open>d k = Some v\<close> show ?thesis by (auto simp: surviving_iteritems_Cons Cons.IH)
    qed
  qed
qed

lemma fst_surviving_iteritems_subset:
  "set (map fst (surviving (iteritems order d))) \<subseteq> set order"
  by (auto simp: set_surviving_iteritems)

lemma distinct_surviving_iteritems:
  "distinct order \<Longrightarrow> distinct (map fst (surviving (iteritems order d)))"
proof (induction order)
  case Nil
  show ?case by (simp add: iteritems_Nil surviving_Nil)
next
  case (Cons k order)
  then have d: "distinct (map fst (surviving (iteritems order d)))" and k: "k \<notin> set order"
    by simp_all
  from k fst_surviving_iteritems_subset [of order d]
  have n: "k \<notin> set (map fst (surviving (iteritems order d)))" by blast
  show ?case
    using d n by (simp add: surviving_iteritems_Cons split: option.splits)
qed

lemma surviving_iteritems:
  assumes "distinct order" and "dom d \<subseteq> set order"
  shows "set (surviving (iteritems order d)) = {(k, s). d k = Some (Some s) \<and> k \<noteq> [] \<and> s \<noteq> []}"
    and "distinct (map fst (surviving (iteritems order d)))"
proof -
  show "set (surviving (iteritems order d)) = {(k, s). d k = Some (Some s) \<and> k \<noteq> [] \<and> s \<noteq> []}"
    using assms(2) by (auto simp: set_surviving_iteritems)
  show "distinct (map fst (surviving (iteritems order d)))"
    using assms(1) by (rule distinct_surviving_iteritems)
qed

subsection \<open>The filter\<close>

text \<open>
  For a type filter without a percent sign: \<^verbatim>\<open>build_search_filter\<close> returns
  \<^verbatim>\<open>None\<close> when no item survives; otherwise it returns the conjunction of one
  assertion for each surviving item, in the iteration order of the dictionary, and of
  the type filter. An assertion is an equality of the escaped key and the escaped value
  when \<open>exact\<close> is true, and a substring assertion with the escaped value between
  asterisks when it is false.
\<close>

lemma build_search_filter_plain_type_filter:
  assumes "CHR ''%'' \<notin> set type_filter"
  shows "build_search_filter order criteria type_filter mapping exact =
     (let items = surviving (iteritems order
                    (convert_app_data criteria
                       (case mapping of None \<Rightarrow> Map.empty | Some m \<Rightarrow> m)))
      in if items = [] then Inr None
         else Inr (Some (''(&'' @ concat (map (\<lambda>(k, s).
                   ''('' @ escape_filter_chars k @ (if exact then ''='' else ''=*'')
                     @ escape_filter_chars s @ (if exact then '')'' else ''*)'')) items)
                 @ type_filter @ '')'')))"
proof -
  define items where "items = surviving (iteritems order
                    (convert_app_data criteria
                       (case mapping of None \<Rightarrow> Map.empty | Some m \<Rightarrow> m)))"
  show ?thesis
  proof (cases "items = []")
    case True
    then show ?thesis
      unfolding build_search_filter_def Let_def items_def [symmetric] by simp
  next
    case False
    then show ?thesis
      unfolding build_search_filter_def Let_def items_def [symmetric]
      by (simp only: if_False filter_format_assertions [OF assms] map_sum.simps id_apply)
  qed
qed

lemma build_search_filter_examples:
  "build_search_filter [''name''] [''name'' \<mapsto> Some ''john''] ''(objectClass=user)''
     (Some Map.empty) True
   = Inr (Some ''(&(name=john)(objectClass=user))'')"
  "build_search_filter [''name''] [''name'' \<mapsto> Some ''john''] ''(objectClass=user)''
     (Some Map.empty) False
   = Inr (Some ''(&(name=*john*)(objectClass=user))'')"
  "build_search_filter [] Map.empty ''(objectClass=user)'' (Some Map.empty) exact = Inr None"
  by (simp_all add: build_search_filter_plain_type_filter convert_app_data_def
        convert_data_no_keys iteritems_def surviving_def
        escape_filter_chars_def replace_char_def Let_def)


text \<open>
  C7 fails for a type filter with a percent sign. \<^verbatim>\<open>build_search_filter\<close> puts the
  type filter into the template that \<^verbatim>\<open>filter_format\<close> formats with the \<^verbatim>\<open>%\<close>
  operator, so a percent sign of the type filter is read as the start of a conversion:
  with the criteria \<^verbatim>\<open>{name: "john"}\<close> and the type filter
  \<^verbatim>\<open>(description=100%)\<close> the template is \<^verbatim>\<open>(&(%s=%s)(description=100%))\<close> for
  an exact match. The two arguments go to the two \<^verbatim>\<open>%s\<close> of the assertion; at
  \<^verbatim>\<open>%)\<close> the operator asks for a third argument and raises \<^verbatim>\<open>TypeError\<close>, for
  both values of \<open>exact\<close>.
\<close>

theorem build_search_filter_percent_in_type_filter:
  "build_search_filter [''name''] [''name'' \<mapsto> Some ''john''] ''(description=100%)''
     (Some Map.empty) exact
   = Inl (TypeError ''not enough arguments for format string'')"
  by (cases exact)
     (simp_all add: build_search_filter_def convert_app_data_def
        convert_data_no_keys iteritems_def surviving_def filter_format_def
        escape_filter_chars_def replace_char_def conversion_prefix_chars_def Let_def)

text \<open>
  With an argument left, the same percent sign raises \<^verbatim>\<open>ValueError\<close>: the operator
  takes the argument and then finds no conversion.
\<close>

lemma py_percent_percent_paren:
  "py_percent ''(%s=100%)'' [''a''] = Inl (TypeError ''not enough arguments for format string'')"
  "py_percent ''(%s=100%)'' [''a'', ''b''] = Inl (ValueError ''unsupported format character'')"
  by (simp_all add: conversion_prefix_chars_def other_conversion_chars_def)

section \<open>Properties of \<^verbatim>\<open>_create_providers\<close>\<close>

text \<open>
  The loop on configured entries that resolve to the classes \<open>cs\<close>. It raises at the
  first entry whose class is not multi-instance and has a type that an earlier entry
  has; when there is no such entry it stores one instance under each name.
\<close>

lemma create_providers_loop_duplicate:
  assumes "list_all2 (\<lambda>e c. \<exists>t. snd e ''type'' = Some t
                      \<and> resolve_provider_type eps base t None = Inr c) pre cs"
      and "\<exists>k<length cs. \<not> multi_instance (cs ! k)
             \<and> cls_type (cs ! k) \<in> types \<union> cls_type ` set (take k cs)"
  shows "\<exists>k<length cs. \<not> multi_instance (cs ! k)
           \<and> cls_type (cs ! k) \<in> types \<union> cls_type ` set (take k cs)
           \<and> create_providers_loop eps base (pre @ rest) providers types =
               Inl (RuntimeError (''Provider does not support multiple instances: ''
                                    @ cls_type (cs ! k)))"
  using assms
proof (induction pre cs arbitrary: providers types rule: list_all2_induct)
  case Nil
  then show ?case by simp
next
  case (Cons e pre c cs)
  obtain n s where e: "e = (n, s)" by (cases e)
  from Cons.hyps(1) e obtain t where t: "s ''type'' = Some t"
    and r: "resolve_provider_type eps base t None = Inr c"
    by auto
  show ?case
  proof (cases "\<not> multi_instance c \<and> cls_type c \<in> types")
    case True
    with t r e have "create_providers_loop eps base ((e # pre) @ rest) providers types =
               Inl (RuntimeError (''Provider does not support multiple instances: ''
                                    @ cls_type c))"
      by simp
    with True have "0 < length (c # cs) \<and> \<not> multi_instance ((c # cs) ! 0)
           \<and> cls_type ((c # cs) ! 0) \<in> types \<union> cls_type ` set (take 0 (c # cs))
           \<and> create_providers_loop eps base ((e # pre) @ rest) providers types =
               Inl (RuntimeError (''Provider does not support multiple instances: ''
                                    @ cls_type ((c # cs) ! 0)))"
      by simp
    then show ?thesis by blast
  next
    case False
    let ?providers = "providers(n \<mapsto>
          \<lparr>inst_class = c, inst_name = n, inst_settings = s(''type'' := None)\<rparr>)"
    let ?types = "insert (cls_type c) types"
    from False t r e
    have step: "create_providers_loop eps base ((e # pre) @ rest) providers types =
                create_providers_loop eps base (pre @ rest) ?providers ?types"
      by auto
    from Cons.prems obtain k where k: "k < length (c # cs)"
      and km: "\<not> multi_instance ((c # cs) ! k)"
      and kt: "cls_type ((c # cs) ! k) \<in> types \<union> cls_type ` set (take k (c # cs))"
      by blast
    from False km kt have "k \<noteq> 0" by (cases k) auto
    then obtain k' where k': "k = Suc k'" by (cases k) auto
    with k km kt have "\<exists>j<length cs. \<not> multi_instance (cs ! j)
             \<and> cls_type (cs ! j) \<in> ?types \<union> cls_type ` set (take j cs)"
      by auto
    from Cons.IH [OF this, of ?providers]
    obtain j where j: "j < length cs" and jm: "\<not> multi_instance (cs ! j)"
      and jt: "cls_type (cs ! j) \<in> ?types \<union> cls_type ` set (take j cs)"
      and jr: "create_providers_loop eps base (pre @ rest) ?providers ?types =
               Inl (RuntimeError (''Provider does not support multiple instances: ''
                                    @ cls_type (cs ! j)))"
      by blast
    from j jm jt jr step
    have "Suc j < length (c # cs) \<and> \<not> multi_instance ((c # cs) ! Suc j)
           \<and> cls_type ((c # cs) ! Suc j) \<in> types \<union> cls_type ` set (take (Suc j) (c # cs))
           \<and> create_providers_loop eps base ((e # pre) @ rest) providers types =
               Inl (RuntimeError (''Provider does not support multiple instances: ''
                                    @ cls_type ((c # cs) ! Suc j)))"
      by auto
    then show ?thesis by blast
  qed
qed

lemma map_add_shift: "m(k \<mapsto> v) ++ map_of xs = m ++ map_of (xs @ [(k, v)])"
  by (rule ext) (simp add: map_add_def split: option.splits)

lemma create_providers_loop_success:
  assumes "list_all2 (\<lambda>e c. \<exists>t. snd e ''type'' = Some t
                      \<and> resolve_provider_type eps base t None = Inr c) configured cs"
      and "\<forall>k<length cs. multi_instance (cs ! k)
             \<or> cls_type (cs ! k) \<notin> types \<union> cls_type ` set (take k cs)"
  shows "create_providers_loop eps base configured providers types =
           Inr (providers ++ map_of (rev (map2
                  (\<lambda>e c. (fst e, \<lparr>inst_class = c, inst_name = fst e,
                                   inst_settings = (snd e)(''type'' := None)\<rparr>))
                  configured cs)))"
  using assms
proof (induction configured cs arbitrary: providers types rule: list_all2_induct)
  case Nil
  then show ?case by simp
next
  case (Cons e configured c cs)
  obtain n s where e: "e = (n, s)" by (cases e)
  from Cons.hyps(1) e obtain t where t: "s ''type'' = Some t"
    and r: "resolve_provider_type eps base t None = Inr c"
    by auto
  let ?i = "\<lparr>inst_class = c, inst_name = n, inst_settings = s(''type'' := None)\<rparr>"
  let ?types = "insert (cls_type c) types"
  from Cons.prems [rule_format, of 0] have c0: "multi_instance c \<or> cls_type c \<notin> types"
    by simp
  have tl: "\<forall>k<length cs. multi_instance (cs ! k)
             \<or> cls_type (cs ! k) \<notin> ?types \<union> cls_type ` set (take k cs)"
  proof (intro allI impI)
    fix k assume "k < length cs"
    with Cons.prems [rule_format, of "Suc k"]
    show "multi_instance (cs ! k) \<or> cls_type (cs ! k) \<notin> ?types \<union> cls_type ` set (take k cs)"
      by auto
  qed
  from c0 t r e
  have "create_providers_loop eps base (e # configured) providers types =
        create_providers_loop eps base configured (providers(n \<mapsto> ?i)) ?types"
    by auto
  also have "\<dots> = Inr (providers(n \<mapsto> ?i) ++ map_of (rev (map2
                  (\<lambda>e c. (fst e, \<lparr>inst_class = c, inst_name = fst e,
                                   inst_settings = (snd e)(''type'' := None)\<rparr>))
                  configured cs)))"
    by (rule Cons.IH [OF tl])
  also have "\<dots> = Inr (providers ++ map_of (rev (map2
                  (\<lambda>e c. (fst e, \<lparr>inst_class = c, inst_name = fst e,
                                   inst_settings = (snd e)(''type'' := None)\<rparr>))
                  (e # configured) (c # cs))))"
    using map_add_shift [of providers n ?i] by (simp add: e)
  finally show ?case .
qed

lemma map_fst_map2:
  "length xs = length ys \<Longrightarrow> map fst (map2 (\<lambda>e c. (fst e, g e c)) xs ys) = map fst xs"
  by (induction xs ys rule: list_induct2) auto

text \<open>
  C6. Let the entries \<open>pre\<close>, in the iteration order of the configured dictionary,
  resolve to the classes \<open>cs\<close>. When two of them resolve to the same type and the class
  of the later one is not multi-instance, \<^verbatim>\<open>_create_providers\<close> raises the
  \<^verbatim>\<open>RuntimeError\<close> that names the type of an entry whose class is not multi-instance
  and whose type an earlier entry has, whatever entries follow. When every entry
  resolves and no entry has a class that is not multi-instance together with the type
  of an earlier entry, in particular when a type has several entries and its class is
  multi-instance, the creation succeeds, and the result holds under the name of each
  entry the instance of its class, with its name and its settings without
  \<^verbatim>\<open>'type'\<close>.
\<close>

theorem create_providers_multi_instance:
  assumes "list_all2 (\<lambda>e c. \<exists>t. snd e ''type'' = Some t
                      \<and> resolve_provider_type eps base t None = Inr c) pre cs"
  shows "((\<exists>i j. i < j \<and> j < length cs \<and> cls_type (cs ! i) = cls_type (cs ! j)
              \<and> \<not> multi_instance (cs ! j))
          \<longrightarrow> (\<exists>k<length cs. \<not> multi_instance (cs ! k)
                 \<and> cls_type (cs ! k) \<in> cls_type ` set (take k cs)
                 \<and> create_providers eps (pre @ rest) base =
                     Inl (RuntimeError (''Provider does not support multiple instances: ''
                                          @ cls_type (cs ! k)))))
       \<and> ((\<forall>k<length cs. multi_instance (cs ! k)
                 \<or> cls_type (cs ! k) \<notin> cls_type ` set (take k cs))
            \<and> distinct (map fst pre)
          \<longrightarrow> (\<exists>providers. create_providers eps pre base = Inr providers
                 \<and> dom providers = fst ` set pre
                 \<and> (\<forall>k<length pre. providers (fst (pre ! k)) =
                        Some \<lparr>inst_class = cs ! k, inst_name = fst (pre ! k),
                              inst_settings = (snd (pre ! k))(''type'' := None)\<rparr>)))"
proof (intro conjI impI)
  assume "\<exists>i j. i < j \<and> j < length cs \<and> cls_type (cs ! i) = cls_type (cs ! j)
              \<and> \<not> multi_instance (cs ! j)"
  then obtain i j where ij: "i < j" "j < length cs" "cls_type (cs ! i) = cls_type (cs ! j)"
    and m: "\<not> multi_instance (cs ! j)"
    by blast
  from ij have "take j cs ! i = cs ! i" and "i < length (take j cs)" by simp_all
  then have "cs ! i \<in> set (take j cs)" by (metis nth_mem)
  then have "cls_type (cs ! i) \<in> cls_type ` set (take j cs)" by (rule imageI)
  with ij(3) have "cls_type (cs ! j) \<in> cls_type ` set (take j cs)" by simp
  with ij(2) m have "\<exists>k<length cs. \<not> multi_instance (cs ! k)
             \<and> cls_type (cs ! k) \<in> {} \<union> cls_type ` set (take k cs)"
    by auto
  from create_providers_loop_duplicate [OF assms this, of rest Map.empty]
  show "\<exists>k<length cs. \<not> multi_instance (cs ! k)
                 \<and> cls_type (cs ! k) \<in> cls_type ` set (take k cs)
                 \<and> create_providers eps (pre @ rest) base =
                     Inl (RuntimeError (''Provider does not support multiple instances: ''
                                          @ cls_type (cs ! k)))"
    by (simp add: create_providers_def)
next
  assume h: "(\<forall>k<length cs. multi_instance (cs ! k)
                 \<or> cls_type (cs ! k) \<notin> cls_type ` set (take k cs))
            \<and> distinct (map fst pre)"
  let ?zs = "map2 (\<lambda>e c. (fst e, \<lparr>inst_class = c, inst_name = fst e,
                                   inst_settings = (snd e)(''type'' := None)\<rparr>)) pre cs"
  from assms have len: "length pre = length cs" by (rule list_all2_lengthD)
  from h have "\<forall>k<length cs. multi_instance (cs ! k)
             \<or> cls_type (cs ! k) \<notin> {} \<union> cls_type ` set (take k cs)"
    by simp
  from create_providers_loop_success [OF assms this, of Map.empty]
  have res: "create_providers eps pre base = Inr (map_of (rev ?zs))"
    by (simp add: create_providers_def)
  have fz: "map fst ?zs = map fst pre"
    using len by (rule map_fst_map2)
  have rz: "map fst (rev ?zs) = rev (map fst pre)"
    using fz by (simp only: rev_map [symmetric])
  have d: "dom (map_of (rev ?zs)) = fst ` set pre"
  proof -
    have "dom (map_of (rev ?zs)) = set (map fst (rev ?zs))"
      by (simp only: dom_map_of_conv_image_fst set_map)
    also have "\<dots> = fst ` set pre" by (simp only: rz set_rev set_map)
    finally show ?thesis .
  qed
  have v: "\<forall>k<length pre. map_of (rev ?zs) (fst (pre ! k)) =
                        Some \<lparr>inst_class = cs ! k, inst_name = fst (pre ! k),
                              inst_settings = (snd (pre ! k))(''type'' := None)\<rparr>"
  proof (intro allI impI)
    fix k assume k: "k < length pre"
    with len have zk: "?zs ! k = (fst (pre ! k), \<lparr>inst_class = cs ! k, inst_name = fst (pre ! k),
                              inst_settings = (snd (pre ! k))(''type'' := None)\<rparr>)"
      by simp
    from k len have "k < length ?zs" by simp
    then have "?zs ! k \<in> set ?zs" by (rule nth_mem)
    then have "?zs ! k \<in> set (rev ?zs)" by (simp only: set_rev)
    with zk have "(fst (pre ! k), \<lparr>inst_class = cs ! k, inst_name = fst (pre ! k),
                              inst_settings = (snd (pre ! k))(''type'' := None)\<rparr>) \<in> set (rev ?zs)"
      by (simp only:)
    moreover from h have "distinct (map fst (rev ?zs))"
      by (simp only: rz distinct_rev)
    ultimately show "map_of (rev ?zs) (fst (pre ! k)) =
                        Some \<lparr>inst_class = cs ! k, inst_name = fst (pre ! k),
                              inst_settings = (snd (pre ! k))(''type'' := None)\<rparr>"
      by (rule map_of_is_SomeI [rotated])
  qed
  show "\<exists>providers. create_providers eps pre base = Inr providers
                 \<and> dom providers = fst ` set pre
                 \<and> (\<forall>k<length pre. providers (fst (pre ! k)) =
                        Some \<lparr>inst_class = cs ! k, inst_name = fst (pre ! k),
                              inst_settings = (snd (pre ! k))(''type'' := None)\<rparr>)"
    using res d v by (intro exI [of _ "map_of (rev ?zs)"] conjI)
qed

theorem create_providers_multi_instance_witness:
  "create_providers
     (\<lambda>b n. if n = ''unique''
             then [\<lparr>ep_module_name = ''tests'',
                    ep_load = \<lparr>cls_name = ''UniqueProvider'', cls_type = ''unique'',
                               multi_instance = False, cls_bases = [AuthProviderBase]\<rparr>\<rparr>]
             else [\<lparr>ep_module_name = ''tests'',
                    ep_load = \<lparr>cls_name = ''FooProvider'', cls_type = ''foo'',
                               multi_instance = True, cls_bases = [AuthProviderBase]\<rparr>\<rparr>])
     [(''test'', [''type'' \<mapsto> Str ''unique'']), (''test2'', [''type'' \<mapsto> Str ''unique''])]
     AuthProviderBase
   = Inl (RuntimeError ''Provider does not support multiple instances: unique'')
   \<and> (\<exists>providers.
        create_providers
          (\<lambda>b n. if n = ''unique''
             then [\<lparr>ep_module_name = ''tests'',
                    ep_load = \<lparr>cls_name = ''UniqueProvider'', cls_type = ''unique'',
                               multi_instance = False, cls_bases = [AuthProviderBase]\<rparr>\<rparr>]
             else [\<lparr>ep_module_name = ''tests'',
                    ep_load = \<lparr>cls_name = ''FooProvider'', cls_type = ''foo'',
                               multi_instance = True, cls_bases = [AuthProviderBase]\<rparr>\<rparr>])
          [(''test'', [''type'' \<mapsto> Str ''foo'']), (''test2'', [''type'' \<mapsto> Str ''foo''])]
          AuthProviderBase
        = Inr providers
        \<and> dom providers = {''test'', ''test2''}
        \<and> providers ''test'' =
            Some \<lparr>inst_class = \<lparr>cls_name = ''FooProvider'', cls_type = ''foo'',
                                multi_instance = True, cls_bases = [AuthProviderBase]\<rparr>,
                  inst_name = ''test'', inst_settings = Map.empty\<rparr>
        \<and> providers ''test2'' =
            Some \<lparr>inst_class = \<lparr>cls_name = ''FooProvider'', cls_type = ''foo'',
                                multi_instance = True, cls_bases = [AuthProviderBase]\<rparr>,
                  inst_name = ''test2'', inst_settings = Map.empty\<rparr>)"
proof
  define unique where "unique = \<lparr>cls_name = ''UniqueProvider'', cls_type = ''unique'',
                               multi_instance = False, cls_bases = [AuthProviderBase]\<rparr>"
  define foo where "foo = \<lparr>cls_name = ''FooProvider'', cls_type = ''foo'',
                               multi_instance = True, cls_bases = [AuthProviderBase]\<rparr>"
  define eps where "eps = (\<lambda>(b::provider_base) n. if n = ''unique''
             then [\<lparr>ep_module_name = ''tests'', ep_load = unique\<rparr>]
             else [\<lparr>ep_module_name = ''tests'', ep_load = foo\<rparr>])"
  define conf where
    "conf = [(''test'', [''type'' \<mapsto> Str ''unique'']), (''test2'', [''type'' \<mapsto> Str ''unique''])]"
  have r: "list_all2 (\<lambda>e c. \<exists>t. snd e ''type'' = Some t
                      \<and> resolve_provider_type eps AuthProviderBase t None = Inr c)
             conf [unique, unique]"
    by (simp add: conf_def eps_def resolve_provider_type_def issubclass_def unique_def)
  have p: "\<exists>i j. i < j \<and> j < length [unique, unique]
             \<and> cls_type ([unique, unique] ! i) = cls_type ([unique, unique] ! j)
             \<and> \<not> multi_instance ([unique, unique] ! j)"
  proof (intro exI conjI)
    show "(0::nat) < 1" by simp
    show "1 < length [unique, unique]" by simp
    show "cls_type ([unique, unique] ! 0) = cls_type ([unique, unique] ! 1)" by simp
    show "\<not> multi_instance ([unique, unique] ! 1)" by (simp add: unique_def)
  qed
  have "(\<exists>i j. i < j \<and> j < length [unique, unique]
             \<and> cls_type ([unique, unique] ! i) = cls_type ([unique, unique] ! j)
             \<and> \<not> multi_instance ([unique, unique] ! j))
        \<longrightarrow> (\<exists>k<length [unique, unique]. \<not> multi_instance ([unique, unique] ! k)
                 \<and> cls_type ([unique, unique] ! k) \<in> cls_type ` set (take k [unique, unique])
                 \<and> create_providers eps (conf @ []) AuthProviderBase =
                     Inl (RuntimeError (''Provider does not support multiple instances: ''
                                          @ cls_type ([unique, unique] ! k))))"
    using create_providers_multi_instance [OF r, of "[]"] by (rule conjunct1)
  from this p have "\<exists>k<length [unique, unique]. \<not> multi_instance ([unique, unique] ! k)
                 \<and> cls_type ([unique, unique] ! k) \<in> cls_type ` set (take k [unique, unique])
                 \<and> create_providers eps (conf @ []) AuthProviderBase =
                     Inl (RuntimeError (''Provider does not support multiple instances: ''
                                          @ cls_type ([unique, unique] ! k)))"
    by (rule mp)
  then obtain k where k: "k < length [unique, unique]"
    and res: "create_providers eps (conf @ []) AuthProviderBase =
                Inl (RuntimeError (''Provider does not support multiple instances: ''
                                     @ cls_type ([unique, unique] ! k)))"
    by blast
  from k have "k = 0 \<or> k = 1" by auto
  then have "cls_type ([unique, unique] ! k) = ''unique''"
    by (auto simp: unique_def)
  with res have "create_providers eps conf AuthProviderBase =
                   Inl (RuntimeError ''Provider does not support multiple instances: unique'')"
    by simp
  then show "create_providers
     (\<lambda>b n. if n = ''unique''
             then [\<lparr>ep_module_name = ''tests'',
                    ep_load = \<lparr>cls_name = ''UniqueProvider'', cls_type = ''unique'',
                               multi_instance = False, cls_bases = [AuthProviderBase]\<rparr>\<rparr>]
             else [\<lparr>ep_module_name = ''tests'',
                    ep_load = \<lparr>cls_name = ''FooProvider'', cls_type = ''foo'',
                               multi_instance = True, cls_bases = [AuthProviderBase]\<rparr>\<rparr>])
     [(''test'', [''type'' \<mapsto> Str ''unique'']), (''test2'', [''type'' \<mapsto> Str ''unique''])]
     AuthProviderBase
   = Inl (RuntimeError ''Provider does not support multiple instances: unique'')"
    unfolding eps_def conf_def unique_def foo_def .
next
  define unique where "unique = \<lparr>cls_name = ''UniqueProvider'', cls_type = ''unique'',
                               multi_instance = False, cls_bases = [AuthProviderBase]\<rparr>"
  define foo where "foo = \<lparr>cls_name = ''FooProvider'', cls_type = ''foo'',
                               multi_instance = True, cls_bases = [AuthProviderBase]\<rparr>"
  define eps where "eps = (\<lambda>(b::provider_base) n. if n = ''unique''
             then [\<lparr>ep_module_name = ''tests'', ep_load = unique\<rparr>]
             else [\<lparr>ep_module_name = ''tests'', ep_load = foo\<rparr>])"
  define conf where
    "conf = [(''test'', [''type'' \<mapsto> Str ''foo'']), (''test2'', [''type'' \<mapsto> Str ''foo''])]"
  have r: "list_all2 (\<lambda>e c. \<exists>t. snd e ''type'' = Some t
                      \<and> resolve_provider_type eps AuthProviderBase t None = Inr c)
             conf [foo, foo]"
    by (simp add: conf_def eps_def resolve_provider_type_def issubclass_def foo_def)
  have p: "(\<forall>k<length [foo, foo]. multi_instance ([foo, foo] ! k)
                 \<or> cls_type ([foo, foo] ! k) \<notin> cls_type ` set (take k [foo, foo]))
            \<and> distinct (map fst conf)"
  proof (intro conjI allI impI)
    fix k assume "k < length [foo, foo]"
    then have "k = 0 \<or> k = 1" by auto
    then have "multi_instance ([foo, foo] ! k)" by (auto simp: foo_def)
    then show "multi_instance ([foo, foo] ! k)
                 \<or> cls_type ([foo, foo] ! k) \<notin> cls_type ` set (take k [foo, foo])"
      by (rule disjI1)
  next
    show "distinct (map fst conf)" by (simp add: conf_def)
  qed
  have "(\<forall>k<length [foo, foo]. multi_instance ([foo, foo] ! k)
                 \<or> cls_type ([foo, foo] ! k) \<notin> cls_type ` set (take k [foo, foo]))
            \<and> distinct (map fst conf)
          \<longrightarrow> (\<exists>providers. create_providers eps conf AuthProviderBase = Inr providers
                 \<and> dom providers = fst ` set conf
                 \<and> (\<forall>k<length conf. providers (fst (conf ! k)) =
                        Some \<lparr>inst_class = [foo, foo] ! k, inst_name = fst (conf ! k),
                              inst_settings = (snd (conf ! k))(''type'' := None)\<rparr>))"
    using create_providers_multi_instance [OF r] by (rule conjunct2)
  from this p have "\<exists>providers. create_providers eps conf AuthProviderBase = Inr providers
                 \<and> dom providers = fst ` set conf
                 \<and> (\<forall>k<length conf. providers (fst (conf ! k)) =
                        Some \<lparr>inst_class = [foo, foo] ! k, inst_name = fst (conf ! k),
                              inst_settings = (snd (conf ! k))(''type'' := None)\<rparr>)"
    by (rule mp)
  then obtain providers where pr: "create_providers eps conf AuthProviderBase = Inr providers
                 \<and> dom providers = fst ` set conf
                 \<and> (\<forall>k<length conf. providers (fst (conf ! k)) =
                        Some \<lparr>inst_class = [foo, foo] ! k, inst_name = fst (conf ! k),
                              inst_settings = (snd (conf ! k))(''type'' := None)\<rparr>)" ..
  from pr have res: "create_providers eps conf AuthProviderBase = Inr providers"
    by (rule conjunct1)
  from pr have d: "dom providers = fst ` set conf"
    by (rule conjunct2 [THEN conjunct1])
  from pr have v: "\<forall>k<length conf. providers (fst (conf ! k)) =
                        Some \<lparr>inst_class = [foo, foo] ! k, inst_name = fst (conf ! k),
                              inst_settings = (snd (conf ! k))(''type'' := None)\<rparr>"
    by (rule conjunct2 [THEN conjunct2])
  from v [rule_format, of 0] have v0: "providers ''test'' =
      Some \<lparr>inst_class = foo, inst_name = ''test'', inst_settings = Map.empty\<rparr>"
    by (simp add: conf_def)
  from v [rule_format, of 1] have v1: "providers ''test2'' =
      Some \<lparr>inst_class = foo, inst_name = ''test2'', inst_settings = Map.empty\<rparr>"
    by (simp add: conf_def)
  from d have d': "dom providers = {''test'', ''test2''}"
    by (simp add: conf_def)
  from res d' v0 v1
  have "create_providers eps conf AuthProviderBase = Inr providers
        \<and> dom providers = {''test'', ''test2''}
        \<and> providers ''test'' =
            Some \<lparr>inst_class = foo, inst_name = ''test'', inst_settings = Map.empty\<rparr>
        \<and> providers ''test2'' =
            Some \<lparr>inst_class = foo, inst_name = ''test2'', inst_settings = Map.empty\<rparr>"
    by (intro conjI)
  then show "\<exists>providers.
        create_providers
          (\<lambda>b n. if n = ''unique''
             then [\<lparr>ep_module_name = ''tests'',
                    ep_load = \<lparr>cls_name = ''UniqueProvider'', cls_type = ''unique'',
                               multi_instance = False, cls_bases = [AuthProviderBase]\<rparr>\<rparr>]
             else [\<lparr>ep_module_name = ''tests'',
                    ep_load = \<lparr>cls_name = ''FooProvider'', cls_type = ''foo'',
                               multi_instance = True, cls_bases = [AuthProviderBase]\<rparr>\<rparr>])
          [(''test'', [''type'' \<mapsto> Str ''foo'']), (''test2'', [''type'' \<mapsto> Str ''foo''])]
          AuthProviderBase
        = Inr providers
        \<and> dom providers = {''test'', ''test2''}
        \<and> providers ''test'' =
            Some \<lparr>inst_class = \<lparr>cls_name = ''FooProvider'', cls_type = ''foo'',
                                multi_instance = True, cls_bases = [AuthProviderBase]\<rparr>,
                  inst_name = ''test'', inst_settings = Map.empty\<rparr>
        \<and> providers ''test2'' =
            Some \<lparr>inst_class = \<lparr>cls_name = ''FooProvider'', cls_type = ''foo'',
                                multi_instance = True, cls_bases = [AuthProviderBase]\<rparr>,
                  inst_name = ''test2'', inst_settings = Map.empty\<rparr>"
    unfolding eps_def conf_def unique_def foo_def by (rule exI [of _ providers])
qed

end
